theory Spec2Isabelle
  imports Complex_Main "HOL-Library.Sublist"
begin

section \<open>Data model of the recruitment agent\<close>

text \<open>
  The embedding follows \<^verbatim>\<open>src/main.py\<close>. Python strings are \<^typ>\<open>string\<close>, whose
  characters are the code points below 256; the skill extractors are given on text of any
  code points as well. Python floats are modelled by exact rationals. A dictionary with a
  known set of keys is a record of \<^typ>\<open>'a option\<close> fields,
  \<open>None\<close> standing for an absent key; a subscript on an absent key raises \<open>KeyError\<close>,
  which the model returns as a value. \<^verbatim>\<open>datetime.now().isoformat()\<close> is an input of the
  model: every function that reads the clock takes the reading as an argument.
\<close>

datatype error = KeyError string

text \<open>\<^verbatim>\<open>dict.get(key, default)\<close>\<close>

definition dict_get :: "'a option \<Rightarrow> 'a \<Rightarrow> 'a" where
  "dict_get entry dflt = (case entry of None \<Rightarrow> dflt | Some v \<Rightarrow> v)"

record CandidateProfile =
  name :: string
  email :: string
  resume_text :: string
  skills :: "string list"
  experience_years :: rat

text \<open>The caller's candidate dictionary and one entry of the job catalog.\<close>

record candidate_data =
  cd_name :: "string option"
  cd_email :: "string option"
  cd_resume :: "string option"
  cd_skills :: "string list option"
  cd_experience_years :: "rat option"

record job =
  j_id :: "string option"
  j_title :: "string option"
  j_company :: "string option"
  j_required_skills :: "string list option"
  j_years_experience_required :: "rat option"

datatype recommendation = PASS | REVIEW | REJECT

record screening_result =
  sr_match_score :: rat
  sr_resume_skills :: "string list"
  sr_required_skills :: "string list"
  sr_recommendation :: recommendation
  sr_timestamp :: string

text \<open>
  \<open>key_matches\<close> is \<^verbatim>\<open>list(set(a) & set(b))\<close>, a list in the iteration order of a
  Python set, which the language does not fix: the model keeps the set.
\<close>

record match_entry =
  m_job_id :: string
  m_title :: string
  m_company :: string
  m_match_score :: rat
  m_key_matches :: "string set"

record matching_result =
  mr_candidate_id :: string
  mr_total_matches_found :: nat
  mr_top_matches :: "match_entry list"
  mr_timestamp :: string

record question =
  q_id :: nat
  q_category :: string
  q_question :: string

record interview_result =
  ir_role :: string
  ir_total_questions :: nat
  ir_questions :: "question list"
  ir_difficulty_level :: string
  ir_timestamp :: string

text \<open>The interview slot of the workflow result: a plan, or the dictionary \<^verbatim>\<open>{"status": "NO_MATCHES"}\<close>.\<close>

datatype interview_outcome = InterviewPlan interview_result | NO_MATCHES

record rejected_result =
  rj_status :: string
  rj_stage :: string
  rj_result :: screening_result

record completed_result =
  wr_candidate_name :: string
  wr_overall_status :: string
  wr_screening :: screening_result
  wr_matching :: matching_result
  wr_interview :: interview_outcome
  wr_timestamp :: string

datatype workflow_result = Rejected rejected_result | Completed completed_result

text \<open>
  The agent object: its session memory, and the records its logger emits at the configured
  level \<open>INFO\<close> (the \<open>DEBUG\<close> record of \<open>_save_to_memory\<close> is below that level).
\<close>

datatype stage_value =
  ScreeningValue screening_result
| MatchingValue matching_result
| InterviewValue interview_result

datatype log_level = INFO | WARNING

record agent =
  api_key :: "string option"
  model :: string
  session_state :: "string \<rightharpoonup> stage_value"
  logged :: "(log_level \<times> string) list"

text \<open>The four clock readings of one workflow run.\<close>

record clock =
  t_screening :: string
  t_matching :: string
  t_interview :: string
  t_workflow :: string

section \<open>Strings\<close>

text \<open>\<^verbatim>\<open>str.lower()\<close> on the code points below 256: the ASCII capitals and the Latin-1
  capitals \<open>0xC0..0xDE\<close> without the multiplication sign \<open>0xD7\<close> move up by 32.\<close>

definition lower_char :: "char \<Rightarrow> char" where
  "lower_char c =
     (let n = (of_char c :: nat)
      in if (65 \<le> n \<and> n \<le> 90) \<or> (192 \<le> n \<and> n \<le> 222 \<and> n \<noteq> 215)
         then char_of (n + 32) else c)"

definition lower :: "string \<Rightarrow> string" where
  "lower s = map lower_char s"

text \<open>\<^verbatim>\<open>sub in text\<close>: some position of \<open>text\<close> starts with \<open>sub\<close>.\<close>

fun contains :: "'a list \<Rightarrow> 'a list \<Rightarrow> bool" where
  "contains sub [] = (sub = [])"
| "contains sub (c # cs) = (prefix sub (c # cs) \<or> contains sub cs)"

section \<open>Skill extraction\<close>

text \<open>The \<^verbatim>\<open>for keyword in keywords\<close> loop of both extractors, appending to \<open>skills\<close>.\<close>

fun extract_loop :: "string list \<Rightarrow> string \<Rightarrow> string list \<Rightarrow> string list" where
  "extract_loop [] text skills_acc = skills_acc"
| "extract_loop (keyword # rest) text skills_acc =
     (if contains (lower keyword) (lower text)
      then extract_loop rest text (skills_acc @ [keyword])
      else extract_loop rest text skills_acc)"

text \<open>The vocabulary, the local list \<^verbatim>\<open>keywords\<close> that both extractors spell out.\<close>

definition keywords_list :: "string list" where
  "keywords_list = [''Python'', ''Java'', ''Machine Learning'', ''Data Analysis'',
               ''Cloud'', ''SQL'', ''API'', ''Docker'']"

definition extract_skills :: "string \<Rightarrow> string list" where
  "extract_skills resume = extract_loop keywords_list resume []"

definition extract_job_requirements :: "string \<Rightarrow> string list" where
  "extract_job_requirements job_description = extract_loop keywords_list job_description []"

section \<open>Skill extraction on text of any code points\<close>

text \<open>
  A Python string is a sequence of Unicode code points, and \<^verbatim>\<open>str.lower()\<close> is not a
  map over its characters: U+0130 lowers to the two code points U+0069 U+0307, and the
  capital sigma U+03A3 lowers to U+03C2 or U+03C3 by the Final_Sigma test on the text around
  it. Every other code point lowers to one code point, fixed by the Unicode character
  database. The database is data of the Python runtime: its lowercase mapping of the code
  points from U+0100 on and its Final_Sigma test are parameters here. On the code points
  below 256 the mapping is \<open>lower_char\<close>.
\<close>

record unicode_db =
  db_lower :: "nat \<Rightarrow> nat"
  db_final_sigma :: "nat list \<Rightarrow> nat list \<Rightarrow> bool"

definition to_lower_full :: "unicode_db \<Rightarrow> nat \<Rightarrow> nat list" where
  "to_lower_full db c =
     (if c = 0x130 then [0x69, 0x307]
      else if (65 \<le> c \<and> c \<le> 90) \<or> (192 \<le> c \<and> c \<le> 222 \<and> c \<noteq> 215) then [c + 32]
      else if c < 256 then [c]
      else [db_lower db c])"

text \<open>The lowering of the characters \<open>cs\<close> of a string that reads \<open>pre @ cs @ post\<close>.\<close>

fun lower_ucs4 :: "unicode_db \<Rightarrow> nat list \<Rightarrow> nat list \<Rightarrow> nat list \<Rightarrow> nat list" where
  "lower_ucs4 db pre [] post = []"
| "lower_ucs4 db pre (c # cs) post =
     (if c = 0x3A3
      then [if db_final_sigma db pre (cs @ post) then 0x3C2 else 0x3C3]
      else to_lower_full db c)
     @ lower_ucs4 db (pre @ [c]) cs post"

definition str_lower :: "unicode_db \<Rightarrow> nat list \<Rightarrow> nat list" where
  "str_lower db s = lower_ucs4 db [] s []"

text \<open>The code points of a string of the other sections.\<close>

definition code_points :: "string \<Rightarrow> nat list" where
  "code_points s = map of_char s"

fun extract_loop_unicode ::
  "unicode_db \<Rightarrow> string list \<Rightarrow> nat list \<Rightarrow> string list \<Rightarrow> string list" where
  "extract_loop_unicode db [] text skills_acc = skills_acc"
| "extract_loop_unicode db (keyword # rest) text skills_acc =
     (if contains (str_lower db (code_points keyword)) (str_lower db text)
      then extract_loop_unicode db rest text (skills_acc @ [keyword])
      else extract_loop_unicode db rest text skills_acc)"

definition extract_skills_unicode :: "unicode_db \<Rightarrow> nat list \<Rightarrow> string list" where
  "extract_skills_unicode db resume = extract_loop_unicode db keywords_list resume []"

definition extract_job_requirements_unicode :: "unicode_db \<Rightarrow> nat list \<Rightarrow> string list" where
  "extract_job_requirements_unicode db job_description =
     extract_loop_unicode db keywords_list job_description []"

section \<open>Scoring\<close>

definition calculate_match_score :: "string list \<Rightarrow> string list \<Rightarrow> rat" where
  "calculate_match_score candidate_skills required_skills =
     (if required_skills = [] then 0
      else let matches = card (set candidate_skills \<inter> set required_skills)
           in (of_nat matches / of_nat (length required_skills)) * 100)"

definition calculate_job_fit :: "CandidateProfile \<Rightarrow> job \<Rightarrow> rat" where
  "calculate_job_fit candidate jb =
     (let skill_match =
            of_nat (card (set (skills candidate) \<inter> set (dict_get (j_required_skills jb) [])))
            / of_nat (max 1 (length (dict_get (j_required_skills jb) [])));
          exp_match =
            min 1 (experience_years candidate
                   / max 1 (dict_get (j_years_experience_required jb) 1))
      in skill_match * 60 + exp_match * 40)"

definition find_skill_matches :: "string list \<Rightarrow> string list \<Rightarrow> string set" where
  "find_skill_matches candidate_skills job_skills = set candidate_skills \<inter> set job_skills"

section \<open>The agent: memory, logging and the three stages\<close>

definition RecruitmentAgent_init :: "string option \<Rightarrow> string \<Rightarrow> agent" where
  "RecruitmentAgent_init key mdl =
     \<lparr>api_key = key, model = mdl, session_state = Map.empty,
      logged = [(INFO, ''Initialized RecruitmentAgent with model: '' @ mdl)]\<rparr>"

definition logger_info :: "string \<Rightarrow> agent \<Rightarrow> agent" where
  "logger_info msg self = self\<lparr>logged := logged self @ [(INFO, msg)]\<rparr>"

definition logger_warning :: "string \<Rightarrow> agent \<Rightarrow> agent" where
  "logger_warning msg self = self\<lparr>logged := logged self @ [(WARNING, msg)]\<rparr>"

definition save_to_memory :: "string \<Rightarrow> stage_value \<Rightarrow> agent \<Rightarrow> agent" where
  "save_to_memory key v self = self\<lparr>session_state := (session_state self)(key \<mapsto> v)\<rparr>"

definition get_session_state :: "agent \<Rightarrow> (string \<rightharpoonup> stage_value)" where
  "get_session_state self = session_state self"

text \<open>The conditional expression that fills \<open>recommendation\<close> in \<open>screen_candidate\<close>.\<close>

definition recommend :: "rat \<Rightarrow> recommendation" where
  "recommend match_score =
     (if match_score \<ge> 70 then PASS else if match_score \<ge> 50 then REVIEW else REJECT)"

definition screen_candidate ::
  "string \<Rightarrow> string \<Rightarrow> string \<Rightarrow> agent \<Rightarrow> screening_result \<times> agent" where
  "screen_candidate resume job_description now self =
     (let self1 = logger_info ''Screening candidate resume against job'' self;
          resume_skills = extract_skills resume;
          job_skills = extract_job_requirements job_description;
          match_score = calculate_match_score resume_skills job_skills;
          screening =
            \<lparr>sr_match_score = match_score,
             sr_resume_skills = resume_skills,
             sr_required_skills = job_skills,
             sr_recommendation = recommend match_score,
             sr_timestamp = now\<rparr>
      in (screening, save_to_memory ''screening_result'' (ScreeningValue screening) self1))"

text \<open>
  The dictionary appended for a job that passes the filter; its subscripts are evaluated in
  the order written, so the first absent key is the one reported.
\<close>

definition build_match :: "CandidateProfile \<Rightarrow> job \<Rightarrow> rat \<Rightarrow> error + match_entry" where
  "build_match candidate jb score =
     (case j_id jb of None \<Rightarrow> Inl (KeyError ''id'') | Some jid \<Rightarrow>
      case j_title jb of None \<Rightarrow> Inl (KeyError ''title'') | Some title \<Rightarrow>
      case j_company jb of None \<Rightarrow> Inl (KeyError ''company'') | Some company \<Rightarrow>
      case j_required_skills jb of None \<Rightarrow> Inl (KeyError ''required_skills'')
      | Some required \<Rightarrow>
          Inr \<lparr>m_job_id = jid, m_title = title, m_company = company, m_match_score = score,
               m_key_matches = find_skill_matches (skills candidate) required\<rparr>)"

text \<open>The \<^verbatim>\<open>for job in job_database\<close> loop, with \<open>matches\<close> as the accumulator.\<close>

fun match_loop :: "CandidateProfile \<Rightarrow> job list \<Rightarrow> match_entry list \<Rightarrow> error + match_entry list" where
  "match_loop candidate [] matches = Inr matches"
| "match_loop candidate (jb # rest) matches =
     (let score = calculate_job_fit candidate jb
      in if score > 50
         then (case build_match candidate jb score of
                 Inl e \<Rightarrow> Inl e
               | Inr entry \<Rightarrow> match_loop candidate rest (matches @ [entry]))
         else match_loop candidate rest matches)"

text \<open>
  \<^verbatim>\<open>matches.sort(key=..., reverse=True)\<close> is a stable sort into descending order of the
  key: entries of equal key keep their order. That is the stable ascending sort on the
  negated key.
\<close>

definition sort_matches :: "match_entry list \<Rightarrow> match_entry list" where
  "sort_matches matches = sort_key (\<lambda>x. - m_match_score x) matches"

definition match_jobs ::
  "CandidateProfile \<Rightarrow> job list \<Rightarrow> string \<Rightarrow> agent \<Rightarrow> (error + matching_result) \<times> agent" where
  "match_jobs candidate job_database now self =
     (let self1 = logger_info (''Matching jobs for candidate: '' @ name candidate) self
      in case match_loop candidate job_database [] of
           Inl e \<Rightarrow> (Inl e, self1)
         | Inr matches \<Rightarrow>
             (let top_matches = take 3 (sort_matches matches);
                  matching =
                    \<lparr>mr_candidate_id = name candidate,
                     mr_total_matches_found = length matches,
                     mr_top_matches = top_matches,
                     mr_timestamp = now\<rparr>
              in (Inr matching, save_to_memory ''matching_result'' (MatchingValue matching) self1)))"

definition generate_interview ::
  "string \<Rightarrow> string list \<Rightarrow> string \<Rightarrow> agent \<Rightarrow> interview_result \<times> agent" where
  "generate_interview role_title candidate_skills now self =
     (let self1 = logger_info (''Generating interview questions for role: '' @ role_title) self;
          questions =
            [\<lparr>q_id = 1, q_category = ''Technical'',
              q_question = ''Describe your experience with ''
                @ (case candidate_skills of [] \<Rightarrow> ''software development'' | s # _ \<Rightarrow> s)
                @ ''?''\<rparr>,
             \<lparr>q_id = 2, q_category = ''Technical'',
              q_question = ''Walk us through a challenging project you've worked on.''\<rparr>,
             \<lparr>q_id = 3, q_category = ''Behavioral'',
              q_question = ''How do you handle conflicts in a team environment?''\<rparr>,
             \<lparr>q_id = 4, q_category = ''Behavioral'',
              q_question = ''Tell us about a time you failed and what you learned.''\<rparr>,
             \<lparr>q_id = 5, q_category = ''Role-Specific'',
              q_question = ''Why are you interested in this '' @ role_title @ '' position?''\<rparr>];
          interview =
            \<lparr>ir_role = role_title,
             ir_total_questions = length questions,
             ir_questions = questions,
             ir_difficulty_level = ''MEDIUM'',
             ir_timestamp = now\<rparr>
      in (interview, save_to_memory ''interview_questions'' (InterviewValue interview) self1))"

section \<open>The workflow\<close>

text \<open>Step 3 of the workflow: the interview for the best match, or the sentinel.\<close>

definition interview_step ::
  "matching_result \<Rightarrow> CandidateProfile \<Rightarrow> string \<Rightarrow> agent \<Rightarrow> interview_outcome \<times> agent" where
  "interview_step matching candidate now self =
     (case mr_top_matches matching of
        [] \<Rightarrow> (NO_MATCHES, self)
      | best_match # _ \<Rightarrow>
          (let (interview, self1) =
                 generate_interview (m_title best_match) (skills candidate) now self
           in (InterviewPlan interview, self1)))"

definition full_workflow ::
  "candidate_data \<Rightarrow> string \<Rightarrow> job list \<Rightarrow> clock \<Rightarrow> agent \<Rightarrow> (error + workflow_result) \<times> agent" where
  "full_workflow cd job_description jobs_db clk self =
     (case cd_name cd of None \<Rightarrow> (Inl (KeyError ''name''), self) | Some nm \<Rightarrow>
      let self0 = logger_info (''Starting full workflow for: '' @ nm) self
      in case cd_resume cd of None \<Rightarrow> (Inl (KeyError ''resume''), self0) | Some resume \<Rightarrow>
      let (screening, self1) = screen_candidate resume job_description (t_screening clk) self0
      in if sr_recommendation screening = REJECT
         then (Inr (Rejected \<lparr>rj_status = ''REJECTED'', rj_stage = ''screening'',
                              rj_result = screening\<rparr>),
               logger_warning (''Candidate '' @ nm @ '' rejected in screening'') self1)
         else
      case cd_email cd of None \<Rightarrow> (Inl (KeyError ''email''), self1) | Some em \<Rightarrow>
      let candidate =
            \<lparr>name = nm, email = em, resume_text = resume,
             skills = dict_get (cd_skills cd) [],
             experience_years = dict_get (cd_experience_years cd) 0\<rparr>
      in case match_jobs candidate jobs_db (t_matching clk) self1 of
           (Inl e, self2) \<Rightarrow> (Inl e, self2)
         | (Inr matching, self2) \<Rightarrow>
             (let (interview, self3) = interview_step matching candidate (t_interview clk) self2;
                  workflow =
                    \<lparr>wr_candidate_name = nm,
                     wr_overall_status = ''COMPLETED'',
                     wr_screening = screening,
                     wr_matching = matching,
                     wr_interview = interview,
                     wr_timestamp = t_workflow clk\<rparr>
              in (Inr (Completed workflow),
                  logger_info (''Workflow completed for '' @ nm) self3)))"

section \<open>The sample run of \<open>main\<close>\<close>

definition sample_resume :: string where
  "sample_resume = ''Experienced Python developer with 5 years in Machine Learning and Cloud technologies. Proficient in Docker, SQL, and API development. Strong track record building scalable data pipelines.''"

definition sample_candidate :: candidate_data where
  "sample_candidate =
     \<lparr>cd_name = Some ''Alice Johnson'',
      cd_email = Some ''alice@example.com'',
      cd_resume = Some sample_resume,
      cd_skills = Some [''Python'', ''Machine Learning'', ''Cloud'', ''Docker'', ''SQL'', ''API''],
      cd_experience_years = Some 5\<rparr>"

definition sample_job_description :: string where
  "sample_job_description = ''Senior Python Developer with Machine Learning expertise. Experience in Cloud platforms required. Strong SQL and API design skills needed.''"

definition sample_jobs :: "job list" where
  "sample_jobs =
     [\<lparr>j_id = Some ''job_001'', j_title = Some ''Senior ML Engineer'',
       j_company = Some ''TechCorp'',
       j_required_skills = Some [''Python'', ''Machine Learning'', ''Cloud''],
       j_years_experience_required = Some 3\<rparr>,
      \<lparr>j_id = Some ''job_002'', j_title = Some ''Data Engineer'',
       j_company = Some ''DataFlow Inc'',
       j_required_skills = Some [''Python'', ''SQL'', ''Docker''],
       j_years_experience_required = Some 2\<rparr>,
      \<lparr>j_id = Some ''job_003'', j_title = Some ''Backend Developer'',
       j_company = Some ''WebServices Ltd'',
       j_required_skills = Some [''Java'', ''API'', ''Docker''],
       j_years_experience_required = Some 4\<rparr>]"

definition main :: "clock \<Rightarrow> (error + workflow_result) \<times> agent" where
  "main clk =
     full_workflow sample_candidate sample_job_description sample_jobs clk
       (RecruitmentAgent_init None ''gemini-2.0-flash'')"

section \<open>Skill extraction is substring search on lowered text\<close>

lemma contains_sublist: "contains sub s = sublist sub s"
  by (induction s) (simp_all add: sublist_Cons_right)

lemma extract_loop_filter:
  "extract_loop ks s acc = acc @ filter (\<lambda>k. contains (lower k) (lower s)) ks"
  by (induction ks arbitrary: acc) simp_all

lemma extract_skills_filter:
  "extract_skills s = filter (\<lambda>k. sublist (lower k) (lower s)) keywords_list"
  by (simp add: extract_skills_def extract_loop_filter contains_sublist)

lemma extract_job_requirements_filter:
  "extract_job_requirements s = filter (\<lambda>k. sublist (lower k) (lower s)) keywords_list"
  by (simp add: extract_job_requirements_def extract_loop_filter contains_sublist)

lemma lower_ucs4_append:
  "lower_ucs4 db b (xs @ ys) a = lower_ucs4 db b xs (ys @ a) @ lower_ucs4 db (b @ xs) ys a"
  by (induction xs arbitrary: b) simp_all

lemma lower_ucs4_no_sigma:
  "0x3A3 \<notin> set xs \<Longrightarrow> lower_ucs4 db b xs a = concat (map (to_lower_full db) xs)"
  by (induction xs arbitrary: b) simp_all

lemma lower_ucs4_length:
  "0x130 \<notin> set xs \<Longrightarrow> length (lower_ucs4 db b xs a) = length xs"
  by (induction xs arbitrary: b) (simp_all add: to_lower_full_def)

lemma lower_ucs4_sigma:
  "0x3A3 \<in> set xs \<Longrightarrow> \<exists>c \<in> set (lower_ucs4 db b xs a). 128 \<le> c"
  by (induction xs arbitrary: b) auto

lemma lower_ucs4_ascii_context:
  assumes "\<forall>c \<in> set (lower_ucs4 db b xs a). c < 128"
  shows "lower_ucs4 db b xs a = str_lower db xs"
proof -
  have "0x3A3 \<notin> set xs"
    using lower_ucs4_sigma [of xs db b a] assms by fastforce
  then show ?thesis by (simp add: str_lower_def lower_ucs4_no_sigma)
qed

lemma to_lower_full_latin1:
  "n < 256 \<Longrightarrow>
     to_lower_full db n =
       [if (65 \<le> n \<and> n \<le> 90) \<or> (192 \<le> n \<and> n \<le> 222 \<and> n \<noteq> 215) then n + 32 else n]"
  by (auto simp: to_lower_full_def)

lemma to_lower_full_char:
  "to_lower_full db (of_char c) = [of_char (lower_char c)]"
proof -
  have "(of_char c :: nat) < 256" by simp
  from to_lower_full_latin1 [OF this] show ?thesis
    by (auto simp: lower_char_def Let_def)
qed

lemma str_lower_code_points: "str_lower db (code_points s) = code_points (lower s)"
proof -
  have "0x3A3 \<notin> set (code_points s)"
  proof
    assume "0x3A3 \<in> set (code_points s)"
    then obtain c :: char where c: "(of_char c :: nat) = 0x3A3" by (auto simp: code_points_def)
    define n :: nat where "n = of_char c"
    have "n < 256" unfolding n_def by simp
    with c show False by (simp add: n_def [symmetric])
  qed
  then have "str_lower db (code_points s) = concat (map (to_lower_full db) (code_points s))"
    by (simp add: str_lower_def lower_ucs4_no_sigma)
  also have "\<dots> = code_points (lower s)"
    by (induction s) (simp_all add: code_points_def lower_def to_lower_full_char)
  finally show ?thesis .
qed


lemma str_lower_ascii_context:
  assumes "\<forall>c \<in> set (str_lower db xs). c < 128"
  shows "lower_ucs4 db b xs a = str_lower db xs"
proof -
  have "0x3A3 \<notin> set xs"
    using lower_ucs4_sigma [of xs db "[]" "[]"] assms by (fastforce simp: str_lower_def)
  then show ?thesis by (simp add: str_lower_def lower_ucs4_no_sigma)
qed

lemma str_lower_split:
  "str_lower db (p @ w @ s) =
     lower_ucs4 db [] p (w @ s) @ lower_ucs4 db p w s @ lower_ucs4 db (p @ w) s []"
  by (simp add: str_lower_def lower_ucs4_append)

lemma substring_lowers_to_substring:
  assumes "sublist w t" and "\<forall>c \<in> set (str_lower db w). c < 128"
  shows "sublist (str_lower db w) (str_lower db t)"
proof -
  from assms(1) obtain p s where t: "t = p @ w @ s" by (auto simp: sublist_def)
  have "str_lower db t =
      lower_ucs4 db [] p (w @ s) @ str_lower db w @ lower_ucs4 db (p @ w) s []"
    unfolding t str_lower_split by (simp add: str_lower_ascii_context [OF assms(2)])
  then show ?thesis unfolding sublist_def by blast
qed

lemma lowered_substring_has_source:
  assumes sub: "sublist L (str_lower db t)" and ascii: "\<forall>c \<in> set L. c < 128"
    and dot: "0x130 \<notin> set t"
  shows "\<exists>w. sublist w t \<and> str_lower db w = L"
proof -
  from sub obtain A B where AB: "str_lower db t = A @ L @ B" by (auto simp: sublist_def)
  have len: "length (str_lower db t) = length t"
    using dot by (simp add: str_lower_def lower_ucs4_length)
  define p where "p = take (length A) t"
  define w where "w = take (length L) (drop (length A) t)"
  define s where "s = drop (length A + length L) t"
  have t: "t = p @ w @ s"
    unfolding p_def w_def s_def by (metis add.commute append_take_drop_id drop_drop)
  have lp: "length p = length A" and lw: "length w = length L"
    using AB len unfolding p_def w_def by (auto simp: min_def)
  have dp: "0x130 \<notin> set p" and dw: "0x130 \<notin> set w"
    using dot t by auto
  have "lower_ucs4 db [] p (w @ s) @ lower_ucs4 db p w s @ lower_ucs4 db (p @ w) s []
          = A @ L @ B"
    using AB unfolding t str_lower_split .
  moreover have "length (lower_ucs4 db [] p (w @ s)) = length A"
    using dp lp by (simp add: lower_ucs4_length)
  moreover have "length (lower_ucs4 db p w s) = length L"
    using dw lw by (simp add: lower_ucs4_length)
  ultimately have "lower_ucs4 db p w s = L" by simp
  with ascii have "str_lower db w = L"
    using lower_ucs4_ascii_context [of db p w s] by simp
  with t show ?thesis unfolding sublist_def by blast
qed


lemma extract_loop_unicode_filter:
  "extract_loop_unicode db ks t acc =
     acc @ filter (\<lambda>k. sublist (str_lower db (code_points k)) (str_lower db t)) ks"
  by (induction ks arbitrary: acc) (simp_all add: contains_sublist)

lemma sublist_code_points: "sublist (code_points xs) (code_points ys) \<longleftrightarrow> sublist xs ys"
proof
  assume "sublist (code_points xs) (code_points ys)"
  then obtain xs' where "sublist xs' ys" "map of_char xs = (map of_char xs' :: nat list)"
    unfolding code_points_def using sublist_map_rightE by blast
  moreover have "inj (of_char :: char \<Rightarrow> nat)" by (rule inj_of_char)
  ultimately show "sublist xs ys" by simp
next
  assume "sublist xs ys"
  then show "sublist (code_points xs) (code_points ys)"
    unfolding code_points_def by (rule map_mono_sublist)
qed

lemma extract_unicode_latin1:
  "extract_skills_unicode db (code_points s) = extract_skills s"
  "extract_job_requirements_unicode db (code_points s) = extract_job_requirements s"
  by (simp_all add: extract_skills_unicode_def extract_job_requirements_unicode_def
      extract_loop_unicode_filter str_lower_code_points sublist_code_points
      extract_skills_filter extract_job_requirements_filter)

lemma keywords_lower_ascii:
  assumes "tag \<in> set keywords_list"
  shows "\<forall>c \<in> set (str_lower db (code_points tag)). c < 128"
proof -
  have "\<forall>k \<in> set keywords_list. \<forall>c \<in> set (code_points (lower k)). c < 128"
    by code_simp
  with assms show ?thesis by (simp add: str_lower_code_points)
qed

text \<open>
  Claim C8, as the code has it. On any text, a tag is in the result of either extractor
  exactly when it is a tag of the vocabulary and its lowered form is a substring of the
  lowered text. When the text has no U+0130 that is exactly when some substring \<open>w\<close> of
  the text equals the tag up to case (\<open>str_lower db w = str_lower db tag\<close>), and on any
  text such a substring puts the tag in the result. The result is a function of the text
  alone, the same for both extractors and empty on the empty text; on text of code points
  below 256 it is the result of \<open>extract_skills\<close> and \<open>extract_job_requirements\<close>.
\<close>

theorem extract_unicode_case_insensitive_substring:
  "(tag \<in> set (extract_skills_unicode db t) \<longleftrightarrow>
      tag \<in> set keywords_list
      \<and> sublist (str_lower db (code_points tag)) (str_lower db t))
   \<and> (0x130 \<notin> set t \<longrightarrow>
        (tag \<in> set (extract_skills_unicode db t) \<longleftrightarrow>
           tag \<in> set keywords_list
           \<and> (\<exists>w. sublist w t \<and> str_lower db w = str_lower db (code_points tag))))
   \<and> (tag \<in> set keywords_list
        \<and> (\<exists>w. sublist w t \<and> str_lower db w = str_lower db (code_points tag))
       \<longrightarrow> tag \<in> set (extract_skills_unicode db t))
   \<and> extract_job_requirements_unicode db t = extract_skills_unicode db t
   \<and> extract_skills_unicode db [] = []
   \<and> extract_skills_unicode db (code_points s) = extract_skills s
   \<and> extract_job_requirements_unicode db (code_points s) = extract_job_requirements s"
proof -
  have member: "tag \<in> set (extract_skills_unicode db t) \<longleftrightarrow>
      tag \<in> set keywords_list
      \<and> sublist (str_lower db (code_points tag)) (str_lower db t)"
    by (simp add: extract_skills_unicode_def extract_loop_unicode_filter)
  have up: "tag \<in> set (extract_skills_unicode db t)"
    if "tag \<in> set keywords_list
        \<and> (\<exists>w. sublist w t \<and> str_lower db w = str_lower db (code_points tag))"
  proof -
    from that obtain w where k: "tag \<in> set keywords_list" and w: "sublist w t"
      and l: "str_lower db w = str_lower db (code_points tag)" by blast
    from keywords_lower_ascii [OF k, of db] l
    have "\<forall>c \<in> set (str_lower db w). c < 128" by simp
    from substring_lowers_to_substring [OF w this] l k show ?thesis
      by (simp add: member)
  qed
  have down: "\<exists>w. sublist w t \<and> str_lower db w = str_lower db (code_points tag)"
    if "0x130 \<notin> set t" "tag \<in> set (extract_skills_unicode db t)"
  proof -
    from that(2) have k: "tag \<in> set keywords_list"
      and sub: "sublist (str_lower db (code_points tag)) (str_lower db t)"
      by (simp_all add: member)
    from lowered_substring_has_source [OF sub keywords_lower_ascii [OF k] that(1)]
    show ?thesis .
  qed
  have same: "extract_job_requirements_unicode db t = extract_skills_unicode db t"
    by (simp add: extract_skills_unicode_def extract_job_requirements_unicode_def)
  have empty: "extract_skills_unicode db [] = []"
    using extract_unicode_latin1(1) [of db "[]"]
    by (simp add: code_points_def extract_skills_filter keywords_list_def lower_def)
  from up have up': "tag \<in> set keywords_list
        \<and> (\<exists>w. sublist w t \<and> str_lower db w = str_lower db (code_points tag))
       \<longrightarrow> tag \<in> set (extract_skills_unicode db t)" ..
  have iff: "0x130 \<notin> set t \<longrightarrow>
        (tag \<in> set (extract_skills_unicode db t) \<longleftrightarrow>
           tag \<in> set keywords_list
           \<and> (\<exists>w. sublist w t \<and> str_lower db w = str_lower db (code_points tag)))"
    using up down member by blast
  show ?thesis
    using member iff up' same empty extract_unicode_latin1 [of db s]
    by (intro conjI) assumption+
qed

theorem extract_unicode_case_insensitive_substring_witness:
  "(0x130 :: nat)
     \<notin> set [0x44, 0x6F, 0x63, 0x212A, 0x65, 0x72, 0x20, 0x26, 0x20, 0x73, 0x71, 0x6C]
   \<and> ''Docker'' \<in> set (extract_skills_unicode
        \<lparr>db_lower = (\<lambda>c. if c = 0x212A then 0x6B else c),
         db_final_sigma = (\<lambda>pre post. False)\<rparr>
        [0x44, 0x6F, 0x63, 0x212A, 0x65, 0x72, 0x20, 0x26, 0x20, 0x73, 0x71, 0x6C])
   \<and> ''Java'' \<notin> set (extract_skills_unicode
        \<lparr>db_lower = (\<lambda>c. if c = 0x212A then 0x6B else c),
         db_final_sigma = (\<lambda>pre post. False)\<rparr>
        [0x44, 0x6F, 0x63, 0x212A, 0x65, 0x72, 0x20, 0x26, 0x20, 0x73, 0x71, 0x6C])"
proof -
  let ?db = "\<lparr>db_lower = (\<lambda>c. if c = 0x212A then 0x6B else c),
              db_final_sigma = (\<lambda>pre post. False)\<rparr>"
  let ?t = "[0x44, 0x6F, 0x63, 0x212A, 0x65, 0x72, 0x20, 0x26, 0x20, 0x73, 0x71, 0x6C] :: nat list"
  have dot: "0x130 \<notin> set ?t" by simp
  have "sublist [0x44, 0x6F, 0x63, 0x212A, 0x65, 0x72] ?t
        \<and> str_lower ?db [0x44, 0x6F, 0x63, 0x212A, 0x65, 0x72] =
          str_lower ?db (code_points ''Docker'')"
    by code_simp
  then have w: "\<exists>w. sublist w ?t \<and> str_lower ?db w = str_lower ?db (code_points ''Docker'')"
    by blast
  have k: "''Docker'' \<in> set keywords_list" by code_simp
  note iff = extract_unicode_case_insensitive_substring
    [where db = ?db and t = ?t, THEN conjunct2, THEN conjunct1, rule_format, OF dot]
  have a: "''Docker'' \<in> set (extract_skills_unicode ?db ?t)"
    using iff [of "''Docker''"] k w by blast
  have b: "''Java'' \<notin> set (extract_skills_unicode ?db ?t)"
    by code_simp
  from dot a b show ?thesis by (intro conjI)
qed

text \<open>
  The text \<open>AP\<close> followed by U+0130 gives the tag API although none of its substrings
  equals API up to case: the lowered text reads a, p, i, U+0307. No code point of this text
  is looked up in the tables.
\<close>

theorem dotted_capital_i_counterexample:
  "''API'' \<in> set (extract_skills_unicode
                    \<lparr>db_lower = (\<lambda>c. c), db_final_sigma = (\<lambda>pre post. False)\<rparr>
                    [0x41, 0x50, 0x130])
   \<and> \<not> (\<exists>w. sublist w [0x41, 0x50, 0x130]
           \<and> str_lower \<lparr>db_lower = (\<lambda>c. c), db_final_sigma = (\<lambda>pre post. False)\<rparr> w =
             str_lower \<lparr>db_lower = (\<lambda>c. c), db_final_sigma = (\<lambda>pre post. False)\<rparr>
               (code_points ''API''))"
proof
  show "''API'' \<in> set (extract_skills_unicode
                    \<lparr>db_lower = (\<lambda>c. c), db_final_sigma = (\<lambda>pre post. False)\<rparr>
                    [0x41, 0x50, 0x130])"
    by code_simp
  have api: "str_lower \<lparr>db_lower = (\<lambda>c. c), db_final_sigma = (\<lambda>pre post. False)\<rparr>
               (code_points ''API'') = [0x61, 0x70, 0x69]"
    by code_simp
  show "\<not> (\<exists>w. sublist w [0x41, 0x50, 0x130]
           \<and> str_lower \<lparr>db_lower = (\<lambda>c. c), db_final_sigma = (\<lambda>pre post. False)\<rparr> w =
             str_lower \<lparr>db_lower = (\<lambda>c. c), db_final_sigma = (\<lambda>pre post. False)\<rparr>
               (code_points ''API''))"
    unfolding api
    by (auto simp: sublist_Cons_right prefix_Cons str_lower_def to_lower_full_def)
qed

section \<open>The screening score and the recommendation\<close>

lemma card_inter_le_length: "card (set S \<inter> set R) \<le> length R"
  by (meson List.finite_set card_length card_mono inf_le2 le_trans)

text \<open>
  Claim C2. The screening match score lies between 0 and 100, is 0 when the list of
  required skills is empty, and otherwise is the number of distinct common skills divided
  by the length of the required list, times 100.
\<close>

theorem calculate_match_score_range:
  "0 \<le> calculate_match_score S R \<and> calculate_match_score S R \<le> 100
   \<and> calculate_match_score S [] = 0
   \<and> (R \<noteq> [] \<longrightarrow>
        calculate_match_score S R = of_nat (card (set S \<inter> set R)) / of_nat (length R) * 100)"
proof (cases "R = []")
  case True
  then show ?thesis by (simp add: calculate_match_score_def)
next
  case False
  define q :: rat where "q = of_nat (card (set S \<inter> set R)) / of_nat (length R)"
  have "(of_nat (card (set S \<inter> set R)) :: rat) \<le> of_nat (length R)"
    using card_inter_le_length [of S R] by (simp only: of_nat_le_iff)
  with False have "q \<le> 1" by (simp add: q_def divide_le_eq)
  moreover have "0 \<le> q" by (simp add: q_def)
  ultimately have "0 \<le> q * 100 \<and> q * 100 \<le> 100" by simp
  moreover from False have "calculate_match_score S R = q * 100"
    by (simp add: calculate_match_score_def Let_def q_def)
  ultimately show ?thesis using False by (simp add: q_def calculate_match_score_def)
qed

theorem calculate_match_score_range_witness:
  "[''Python'', ''Java'', ''SQL''] \<noteq> [] \<and>
   calculate_match_score [''SQL'', ''Go'', ''Python''] [''Python'', ''Java'', ''SQL''] = 200 / 3"
proof -
  have "card (set [''SQL'', ''Go'', ''Python''] \<inter> set [''Python'', ''Java'', ''SQL'']) = 2"
    by code_simp
  then show ?thesis
    using calculate_match_score_range
      [of "[''SQL'', ''Go'', ''Python'']" "[''Python'', ''Java'', ''SQL'']"]
    by simp
qed

lemma screen_candidate_result:
  "fst (screen_candidate resume jd now self) =
     \<lparr>sr_match_score =
        calculate_match_score (extract_skills resume) (extract_job_requirements jd),
      sr_resume_skills = extract_skills resume,
      sr_required_skills = extract_job_requirements jd,
      sr_recommendation =
        recommend (calculate_match_score (extract_skills resume) (extract_job_requirements jd)),
      sr_timestamp = now\<rparr>"
  by (simp add: screen_candidate_def Let_def)

text \<open>
  Claim C3. The recommendation is a step function of the match score alone: a score of at
  least 70 gives PASS, a score from 50 up to but excluding 70 gives REVIEW, a score below
  50 gives REJECT; and the recommendation of a screening result is that function of the
  result's own match score.
\<close>

theorem recommendation_step_function:
  "(70 \<le> s \<longrightarrow> recommend s = PASS)
   \<and> (50 \<le> s \<and> s < 70 \<longrightarrow> recommend s = REVIEW)
   \<and> (s < 50 \<longrightarrow> recommend s = REJECT)
   \<and> sr_recommendation (fst (screen_candidate resume jd now self)) =
       recommend (sr_match_score (fst (screen_candidate resume jd now self)))"
  by (simp add: recommend_def screen_candidate_result)

theorem recommendation_step_function_witness:
  "recommend 70 = PASS \<and> recommend 100 = PASS \<and> recommend 50 = REVIEW
   \<and> recommend (139 / 2) = REVIEW \<and> recommend (99 / 2) = REJECT \<and> recommend 0 = REJECT"
  using recommendation_step_function [of 70] recommendation_step_function [of 100]
    recommendation_step_function [of 50] recommendation_step_function [of "139 / 2"]
    recommendation_step_function [of "99 / 2"] recommendation_step_function [of 0]
  by simp

lemma sample_extraction:
  "extract_skills sample_resume =
     [''Python'', ''Machine Learning'', ''Cloud'', ''SQL'', ''API'', ''Docker'']"
  "extract_job_requirements sample_job_description =
     [''Python'', ''Machine Learning'', ''Cloud'', ''SQL'', ''API'']"
  by code_simp+

lemma sample_score:
  "calculate_match_score
     [''Python'', ''Machine Learning'', ''Cloud'', ''SQL'', ''API'', ''Docker'']
     [''Python'', ''Machine Learning'', ''Cloud'', ''SQL'', ''API''] = 100"
  by code_simp

lemma sample_screening:
  "fst (screen_candidate sample_resume sample_job_description now self) =
     \<lparr>sr_match_score = 100,
      sr_resume_skills = [''Python'', ''Machine Learning'', ''Cloud'', ''SQL'', ''API'', ''Docker''],
      sr_required_skills = [''Python'', ''Machine Learning'', ''Cloud'', ''SQL'', ''API''],
      sr_recommendation = PASS,
      sr_timestamp = now\<rparr>"
  by (simp add: screen_candidate_result sample_extraction sample_score recommend_def)

lemma java_screening:
  "fst (screen_candidate ''Java developer, ten years of backend work.''
          sample_job_description now self) =
      \<lparr>sr_match_score = 0, sr_resume_skills = [''Java''],
       sr_required_skills = [''Python'', ''Machine Learning'', ''Cloud'', ''SQL'', ''API''],
       sr_recommendation = REJECT, sr_timestamp = now\<rparr>"
proof -
  have 1: "extract_skills ''Java developer, ten years of backend work.'' = [''Java'']"
    by code_simp
  have 2: "calculate_match_score [''Java'']
             [''Python'', ''Machine Learning'', ''Cloud'', ''SQL'', ''API''] = 0"
    by code_simp
  show ?thesis
    by (simp add: screen_candidate_result sample_extraction 1 2 recommend_def)
qed

text \<open>
  Claim C9, as the code has it. On the sample resume and the sample job description of
  \<open>main\<close> the screening extracts Python, Machine Learning, Cloud, SQL and API on the job
  side, those five and Docker on the resume side; the match score is 100 and the
  recommendation is PASS.
\<close>

theorem sample_screening_result:
  "fst (screen_candidate sample_resume sample_job_description now self) =
     \<lparr>sr_match_score = 100,
      sr_resume_skills = [''Python'', ''Machine Learning'', ''Cloud'', ''SQL'', ''API'', ''Docker''],
      sr_required_skills = [''Python'', ''Machine Learning'', ''Cloud'', ''SQL'', ''API''],
      sr_recommendation = PASS,
      sr_timestamp = now\<rparr>"
  by (rule sample_screening)

text \<open>
  The resume names Docker, a tag of the vocabulary, so the resume side is not the set of
  five tags.
\<close>

theorem sample_resume_skills_counterexample:
  "set (sr_resume_skills
         (fst (screen_candidate sample_resume sample_job_description ''2025-01-01T00:00:00''
                (RecruitmentAgent_init None ''gemini-2.0-flash''))))
   \<noteq> {''Python'', ''Machine Learning'', ''Cloud'', ''SQL'', ''API''}"
proof -
  have "''Docker'' \<in> set (extract_skills sample_resume)"
    by (simp add: sample_extraction)
  moreover have "''Docker'' \<notin> {''Python'', ''Machine Learning'', ''Cloud'', ''SQL'', ''API''}"
    by simp
  ultimately show ?thesis
    by (simp only: screen_candidate_result screening_result.simps) metis
qed

section \<open>The job-fit score\<close>

lemma skill_ratio_bounds:
  fixes S R :: "string list"
  shows "0 \<le> (of_nat (card (set S \<inter> set R)) :: rat) / of_nat (max 1 (length R))"
    and "(of_nat (card (set S \<inter> set R)) :: rat) / of_nat (max 1 (length R)) \<le> 1"
proof -
  show "0 \<le> (of_nat (card (set S \<inter> set R)) :: rat) / of_nat (max 1 (length R))"
    by simp
  have "card (set S \<inter> set R) \<le> max 1 (length R)"
    using card_inter_le_length [of S R] by simp
  then have "(of_nat (card (set S \<inter> set R)) :: rat) \<le> of_nat (max 1 (length R))"
    by (simp only: of_nat_le_iff)
  moreover have "(0::rat) < of_nat (max 1 (length R))"
    by simp
  ultimately show "(of_nat (card (set S \<inter> set R)) :: rat) / of_nat (max 1 (length R)) \<le> 1"
    by (simp only: divide_le_eq_1_pos)
qed

lemma exp_ratio_nonneg:
  fixes e y :: rat
  assumes "0 \<le> e"
  shows "0 \<le> min 1 (e / max 1 y)"
proof -
  have "0 < max 1 y" by simp
  with assms have "0 \<le> e / max 1 y" by (simp only: divide_nonneg_pos)
  then show ?thesis by simp
qed

lemma job_fit_weighted:
  fixes a b :: rat
  assumes "0 \<le> a" "a \<le> 1" "b \<le> 1"
  shows "a * 60 + b * 40 \<le> 100" and "0 \<le> b \<Longrightarrow> 0 \<le> a * 60 + b * 40"
  using assms by simp_all

text \<open>
  Claim C4. The job-fit score is the skill ratio times 60 plus the experience ratio times
  40, the skill ratio's denominator floored at 1 and the experience ratio capped at 1. It
  never exceeds 100, and for a candidate of the data model, whose years of experience are
  not negative, it is at least 0: the score lies in [0,100]. With an empty or absent list
  of required skills the skill ratio contributes 0, and the score is 0 for a candidate with
  no matching skill and zero experience.
\<close>

theorem calculate_job_fit_range:
  "calculate_job_fit c jb =
     of_nat (card (set (skills c) \<inter> set (dict_get (j_required_skills jb) [])))
       / of_nat (max 1 (length (dict_get (j_required_skills jb) []))) * 60
     + min 1 (experience_years c / max 1 (dict_get (j_years_experience_required jb) 1)) * 40
   \<and> calculate_job_fit c jb \<le> 100
   \<and> (0 \<le> experience_years c \<longrightarrow> 0 \<le> calculate_job_fit c jb)
   \<and> (dict_get (j_required_skills jb) [] = [] \<longrightarrow>
        calculate_job_fit c jb =
          min 1 (experience_years c / max 1 (dict_get (j_years_experience_required jb) 1)) * 40)
   \<and> (set (skills c) \<inter> set (dict_get (j_required_skills jb) []) = {}
        \<and> experience_years c = 0 \<longrightarrow> calculate_job_fit c jb = 0)"
proof -
  define a :: rat where
    "a = of_nat (card (set (skills c) \<inter> set (dict_get (j_required_skills jb) [])))
          / of_nat (max 1 (length (dict_get (j_required_skills jb) [])))"
  define b :: rat where
    "b = min 1 (experience_years c / max 1 (dict_get (j_years_experience_required jb) 1))"
  have fit: "calculate_job_fit c jb = a * 60 + b * 40"
    by (simp add: calculate_job_fit_def Let_def a_def b_def)
  have a: "0 \<le> a" "a \<le> 1"
    unfolding a_def by (rule skill_ratio_bounds)+
  have b: "b \<le> 1" by (simp add: b_def)
  have b0: "0 \<le> experience_years c \<Longrightarrow> 0 \<le> b"
    unfolding b_def by (rule exp_ratio_nonneg)
  have upper: "calculate_job_fit c jb \<le> 100"
    using job_fit_weighted(1) [OF a b] fit by simp
  have lower: "0 \<le> experience_years c \<Longrightarrow> 0 \<le> calculate_job_fit c jb"
    using job_fit_weighted(2) [OF a b] b0 fit by simp
  have empty: "dict_get (j_required_skills jb) [] = [] \<Longrightarrow> a = 0"
    by (simp add: a_def)
  have zero: "set (skills c) \<inter> set (dict_get (j_required_skills jb) []) = {}
      \<Longrightarrow> experience_years c = 0 \<Longrightarrow> calculate_job_fit c jb = 0"
    by (simp add: fit a_def b_def)
  show ?thesis
    using upper lower empty zero fit by (simp add: a_def b_def)
qed

theorem calculate_job_fit_range_witness:
  "(0::rat) \<le> 5
   \<and> calculate_job_fit
       \<lparr>name = ''Alice Johnson'', email = ''alice@example.com'', resume_text = sample_resume,
        skills = [''Python'', ''SQL'', ''Docker''], experience_years = 5\<rparr>
       \<lparr>j_id = Some ''job_003'', j_title = Some ''Backend Developer'',
        j_company = Some ''WebServices Ltd'',
        j_required_skills = Some [''Java'', ''API'', ''Docker''],
        j_years_experience_required = Some 4\<rparr> = 60"
proof -
  have "card (set [''Python'', ''SQL'', ''Docker''] \<inter> set [''Java'', ''API'', ''Docker'']) = 1"
    by code_simp
  then show ?thesis
    using calculate_job_fit_range
      [of "\<lparr>name = ''Alice Johnson'', email = ''alice@example.com'', resume_text = sample_resume,
            skills = [''Python'', ''SQL'', ''Docker''], experience_years = 5\<rparr>"
          "\<lparr>j_id = Some ''job_003'', j_title = Some ''Backend Developer'',
            j_company = Some ''WebServices Ltd'',
            j_required_skills = Some [''Java'', ''API'', ''Docker''],
            j_years_experience_required = Some 4\<rparr>"]
    by (simp add: dict_get_def)
qed

lemma job_fit_without_required_skills:
  assumes "j_required_skills jb = None"
  shows "calculate_job_fit c jb \<le> 40"
proof -
  have "calculate_job_fit c jb =
      min 1 (experience_years c / max 1 (dict_get (j_years_experience_required jb) 1)) * 40"
    using assms by (simp add: calculate_job_fit_def dict_get_def)
  then show ?thesis by simp
qed

section \<open>Job matching\<close>

lemma build_match_required_skills:
  "build_match c jb score = Inl (KeyError ''required_skills'') \<Longrightarrow> j_required_skills jb = None"
  by (auto simp: build_match_def split: option.splits)

lemma build_match_score: "build_match c jb score = Inr m \<Longrightarrow> m_match_score m = score"
  by (auto simp: build_match_def split: option.splits)

lemma match_loop_required_skills:
  "match_loop c jobs matches \<noteq> Inl (KeyError ''required_skills'')"
proof (induction jobs arbitrary: matches)
  case Nil
  show ?case by simp
next
  case (Cons jb rest)
  show ?case
  proof (cases "calculate_job_fit c jb > 50")
    case False
    with Cons show ?thesis by simp
  next
    case True
    then have "j_required_skills jb \<noteq> None"
      using job_fit_without_required_skills [of jb c] by fastforce
    then have "build_match c jb (calculate_job_fit c jb) \<noteq> Inl (KeyError ''required_skills'')"
      using build_match_required_skills [of c jb "calculate_job_fit c jb"] by auto
    with True Cons show ?thesis
      by (auto simp: Let_def split: sum.splits)
  qed
qed

text \<open>
  Claim C10. A job without the \<open>required_skills\<close> key scores at most 40, so the loop of
  \<open>match_jobs\<close> passes over it without building a match entry, and neither the loop nor
  \<open>match_jobs\<close> ever reports a lookup failure on \<open>required_skills\<close>, whatever the catalog.
\<close>

theorem missing_required_skills_never_fails:
  "(j_required_skills jb = None \<longrightarrow>
      calculate_job_fit c jb \<le> 40
      \<and> match_loop c (jb # rest) matches = match_loop c rest matches)
   \<and> match_loop c jobs matches \<noteq> Inl (KeyError ''required_skills'')
   \<and> fst (match_jobs c jobs now self) \<noteq> Inl (KeyError ''required_skills'')"
proof -
  have skip: "j_required_skills jb = None \<Longrightarrow>
      match_loop c (jb # rest) matches = match_loop c rest matches"
    using job_fit_without_required_skills [of jb c] by (simp add: Let_def)
  have "fst (match_jobs c jobs now self) \<noteq> Inl (KeyError ''required_skills'')"
    using match_loop_required_skills [of c jobs "[]"]
    by (auto simp: match_jobs_def Let_def split: sum.splits)
  then show ?thesis
    using skip job_fit_without_required_skills match_loop_required_skills by blast
qed

theorem missing_required_skills_never_fails_witness:
  "j_required_skills
     \<lparr>j_id = Some ''job_009'', j_title = Some ''Generalist'', j_company = Some ''TechCorp'',
      j_required_skills = None, j_years_experience_required = Some 2\<rparr> = None
   \<and> match_loop
       \<lparr>name = ''Alice Johnson'', email = ''alice@example.com'', resume_text = sample_resume,
        skills = [''Python'', ''SQL'', ''Docker''], experience_years = 5\<rparr>
       [\<lparr>j_id = Some ''job_009'', j_title = Some ''Generalist'', j_company = Some ''TechCorp'',
         j_required_skills = None, j_years_experience_required = Some 2\<rparr>] [] = Inr []"
  using missing_required_skills_never_fails
      [of "\<lparr>j_id = Some ''job_009'', j_title = Some ''Generalist'', j_company = Some ''TechCorp'',
            j_required_skills = None, j_years_experience_required = Some 2\<rparr>"
          "\<lparr>name = ''Alice Johnson'', email = ''alice@example.com'', resume_text = sample_resume,
            skills = [''Python'', ''SQL'', ''Docker''], experience_years = 5\<rparr>"
          "[]" "[]"]
  by simp

lemma match_loop_Inr:
  "match_loop c jobs acc = Inr ms \<Longrightarrow>
     \<exists>new. ms = acc @ new
       \<and> map Inr new =
           map (\<lambda>jb. build_match c jb (calculate_job_fit c jb))
             (filter (\<lambda>jb. calculate_job_fit c jb > 50) jobs)"
proof (induction jobs arbitrary: acc)
  case Nil
  then show ?case by simp
next
  case (Cons jb rest)
  show ?case
  proof (cases "calculate_job_fit c jb > 50")
    case False
    with Cons show ?thesis by simp
  next
    case True
    with Cons.prems obtain entry where
      e: "build_match c jb (calculate_job_fit c jb) = Inr entry"
      and l: "match_loop c rest (acc @ [entry]) = Inr ms"
      by (auto simp: Let_def split: sum.splits)
    from Cons.IH [OF l] obtain new where
      "ms = (acc @ [entry]) @ new"
      "map Inr new = map (\<lambda>jb. build_match c jb (calculate_job_fit c jb))
                        (filter (\<lambda>jb. calculate_job_fit c jb > 50) rest)"
      by blast
    with e True have "ms = acc @ (entry # new)
       \<and> map Inr (entry # new) =
           map (\<lambda>jb. build_match c jb (calculate_job_fit c jb))
             (filter (\<lambda>jb. calculate_job_fit c jb > 50) (jb # rest))"
      by simp
    then show ?thesis by blast
  qed
qed

lemma filter_map_Inr:
  assumes "map Inr new = map B js"
    and "\<And>j m. B j = Inr m \<Longrightarrow> g m = f j"
  shows "map Inr (filter (\<lambda>m. g m = k) new) = map B (filter (\<lambda>j. f j = k) js)"
  using assms(1)
proof (induction new arbitrary: js)
  case Nil
  then show ?case by simp
next
  case (Cons m new)
  then obtain j js' where js: "js = j # js'" and j: "B j = Inr m" and r: "map Inr new = map B js'"
    by (cases js) auto
  from assms(2) [OF j] have "g m = f j" .
  with Cons.IH [OF r] js j show ?case by simp
qed

lemma match_loop_scores:
  assumes "match_loop c jobs [] = Inr ms"
  shows "\<forall>m \<in> set ms. m_match_score m > 50
           \<and> (\<exists>jb \<in> set jobs. build_match c jb (calculate_job_fit c jb) = Inr m)"
proof
  fix m assume m: "m \<in> set ms"
  from match_loop_Inr [OF assms] have
    eq: "map Inr ms = map (\<lambda>jb. build_match c jb (calculate_job_fit c jb))
                        (filter (\<lambda>jb. calculate_job_fit c jb > 50) jobs)"
    by simp
  from m have "Inr m \<in> set (map Inr ms :: (error + match_entry) list)" by simp
  with eq obtain jb where jb: "jb \<in> set jobs" "calculate_job_fit c jb > 50"
      "build_match c jb (calculate_job_fit c jb) = Inr m"
    by auto
  with build_match_score [OF jb(3)] show "m_match_score m > 50
           \<and> (\<exists>jb \<in> set jobs. build_match c jb (calculate_job_fit c jb) = Inr m)"
    by auto
qed

lemma sort_matches_sorted:
  "sorted_wrt (\<lambda>a b. m_match_score a \<ge> m_match_score b) (sort_matches ms)"
proof -
  have "sorted (map (\<lambda>x. - m_match_score x) (sort_matches ms))"
    unfolding sort_matches_def by (rule sorted_sort_key)
  then show ?thesis by (simp add: sorted_map)
qed

lemma sort_matches_stable:
  "filter (\<lambda>m. m_match_score m = k) (sort_matches ms) = filter (\<lambda>m. m_match_score m = k) ms"
  using sort_key_stable [of "\<lambda>x. - m_match_score x" "- k" ms]
  by (simp add: sort_matches_def)

lemma match_loop_total:
  assumes "\<forall>jb \<in> set jobs. j_id jb \<noteq> None \<and> j_title jb \<noteq> None \<and> j_company jb \<noteq> None
             \<and> j_required_skills jb \<noteq> None"
  shows "\<exists>ms. match_loop c jobs acc = Inr ms"
  using assms
proof (induction jobs arbitrary: acc)
  case Nil
  show ?case by simp
next
  case (Cons jb rest)
  then obtain e where "build_match c jb (calculate_job_fit c jb) = Inr e"
    by (auto simp: build_match_def)
  with Cons show ?case by (simp add: Let_def)
qed

lemma match_jobs_Inr:
  "fst (match_jobs c jobs now self) = Inr res \<longleftrightarrow>
     (\<exists>ms. match_loop c jobs [] = Inr ms
        \<and> res = \<lparr>mr_candidate_id = name c, mr_total_matches_found = length ms,
                  mr_top_matches = take 3 (sort_matches ms), mr_timestamp = now\<rparr>)"
  by (auto simp: match_jobs_def Let_def split: sum.splits)

text \<open>
  Claim C5. Whenever \<open>match_jobs\<close> returns a result, its list of top matches has at most
  three entries, is in non-increasing order of match score, holds only entries built from
  catalog jobs whose fit score is above 50, and for every score \<open>k\<close> its entries of score
  \<open>k\<close> are an initial part, in catalog order, of the entries of the jobs that score \<open>k\<close>:
  ties keep the order of the job list. A catalog whose jobs all carry the keys \<open>id\<close>,
  \<open>title\<close>, \<open>company\<close> and \<open>required_skills\<close> always gives a result.
\<close>

theorem top_matches_sorted_capped_filtered:
  "(fst (match_jobs c jobs now self) = Inr res \<longrightarrow>
      length (mr_top_matches res) \<le> 3
      \<and> sorted_wrt (\<lambda>a b. m_match_score a \<ge> m_match_score b) (mr_top_matches res)
      \<and> (\<forall>m \<in> set (mr_top_matches res).
            m_match_score m > 50
            \<and> (\<exists>jb \<in> set jobs. build_match c jb (calculate_job_fit c jb) = Inr m))
      \<and> (\<forall>k. prefix
            (map Inr (filter (\<lambda>m. m_match_score m = k) (mr_top_matches res)))
            (map (\<lambda>jb. build_match c jb (calculate_job_fit c jb))
               (filter (\<lambda>jb. calculate_job_fit c jb = k)
                  (filter (\<lambda>jb. calculate_job_fit c jb > 50) jobs)))))
   \<and> ((\<forall>jb \<in> set jobs. j_id jb \<noteq> None \<and> j_title jb \<noteq> None \<and> j_company jb \<noteq> None
          \<and> j_required_skills jb \<noteq> None)
        \<longrightarrow> (\<exists>r. fst (match_jobs c jobs now self) = Inr r))"
proof (intro conjI impI)
  assume "\<forall>jb \<in> set jobs. j_id jb \<noteq> None \<and> j_title jb \<noteq> None \<and> j_company jb \<noteq> None
          \<and> j_required_skills jb \<noteq> None"
  from match_loop_total [OF this, of c "[]"]
  show "\<exists>r. fst (match_jobs c jobs now self) = Inr r"
    by (auto simp: match_jobs_Inr)
next
  assume "fst (match_jobs c jobs now self) = Inr res"
  then obtain ms where ms: "match_loop c jobs [] = Inr ms"
    and top: "mr_top_matches res = take 3 (sort_matches ms)"
    by (auto simp: match_jobs_Inr)
  show "length (mr_top_matches res) \<le> 3" by (simp add: top)
  show "sorted_wrt (\<lambda>a b. m_match_score a \<ge> m_match_score b) (mr_top_matches res)"
    unfolding top by (rule sorted_wrt_take) (rule sort_matches_sorted)
  have "set (mr_top_matches res) \<subseteq> set ms"
    unfolding top using set_take_subset [of 3 "sort_matches ms"]
    by (simp add: sort_matches_def)
  with match_loop_scores [OF ms]
  show "\<forall>m \<in> set (mr_top_matches res).
            m_match_score m > 50
            \<and> (\<exists>jb \<in> set jobs. build_match c jb (calculate_job_fit c jb) = Inr m)"
    by blast
  show "\<forall>k. prefix
            (map Inr (filter (\<lambda>m. m_match_score m = k) (mr_top_matches res)))
            (map (\<lambda>jb. build_match c jb (calculate_job_fit c jb))
               (filter (\<lambda>jb. calculate_job_fit c jb = k)
                  (filter (\<lambda>jb. calculate_job_fit c jb > 50) jobs)))"
  proof
    fix k
    from match_loop_Inr [OF ms] have
      eq: "map Inr ms = map (\<lambda>jb. build_match c jb (calculate_job_fit c jb))
                          (filter (\<lambda>jb. calculate_job_fit c jb > 50) jobs)"
      by simp
    have "prefix (filter (\<lambda>m. m_match_score m = k) (take 3 (sort_matches ms)))
                 (filter (\<lambda>m. m_match_score m = k) (sort_matches ms))"
      by (rule filter_mono_prefix) (rule take_is_prefix)
    then have "prefix (filter (\<lambda>m. m_match_score m = k) (mr_top_matches res))
                      (filter (\<lambda>m. m_match_score m = k) ms)"
      by (simp only: top sort_matches_stable)
    then have "prefix (map Inr (filter (\<lambda>m. m_match_score m = k) (mr_top_matches res)))
                      (map Inr (filter (\<lambda>m. m_match_score m = k) ms)
                         :: (error + match_entry) list)"
      by (rule map_mono_prefix)
    also have "map Inr (filter (\<lambda>m. m_match_score m = k) ms) =
        map (\<lambda>jb. build_match c jb (calculate_job_fit c jb))
          (filter (\<lambda>jb. calculate_job_fit c jb = k)
             (filter (\<lambda>jb. calculate_job_fit c jb > 50) jobs))"
      by (rule filter_map_Inr [OF eq]) (rule build_match_score)
    finally show "prefix
            (map Inr (filter (\<lambda>m. m_match_score m = k) (mr_top_matches res)))
            (map (\<lambda>jb. build_match c jb (calculate_job_fit c jb))
               (filter (\<lambda>jb. calculate_job_fit c jb = k)
                  (filter (\<lambda>jb. calculate_job_fit c jb > 50) jobs)))" .
  qed
qed

theorem top_matches_sorted_capped_filtered_witness:
  "fst (match_jobs
         \<lparr>name = ''Alice Johnson'', email = ''alice@example.com'', resume_text = sample_resume,
          skills = [''Python'', ''Machine Learning'', ''Cloud'', ''Docker'', ''SQL'', ''API''],
          experience_years = 5\<rparr>
         (\<lparr>j_id = Some ''job_000'', j_title = Some ''Data Analyst'',
           j_company = Some ''DataFlow Inc'',
           j_required_skills = Some [''Data Analysis'', ''Java''],
           j_years_experience_required = Some 1\<rparr>
          # sample_jobs
          @ [\<lparr>j_id = Some ''job_004'', j_title = Some ''Python Developer'',
              j_company = Some ''TechCorp'',
              j_required_skills = Some [''Python''],
              j_years_experience_required = Some 5\<rparr>])
         ''2025-01-01T00:00:00''
         (RecruitmentAgent_init None ''gemini-2.0-flash'')) =
     Inr \<lparr>mr_candidate_id = ''Alice Johnson'', mr_total_matches_found = 4,
          mr_top_matches =
            [\<lparr>m_job_id = ''job_001'', m_title = ''Senior ML Engineer'', m_company = ''TechCorp'',
              m_match_score = 100, m_key_matches = {''Python'', ''Machine Learning'', ''Cloud''}\<rparr>,
             \<lparr>m_job_id = ''job_002'', m_title = ''Data Engineer'', m_company = ''DataFlow Inc'',
              m_match_score = 100, m_key_matches = {''Python'', ''SQL'', ''Docker''}\<rparr>,
             \<lparr>m_job_id = ''job_004'', m_title = ''Python Developer'', m_company = ''TechCorp'',
              m_match_score = 100, m_key_matches = {''Python''}\<rparr>],
          mr_timestamp = ''2025-01-01T00:00:00''\<rparr>
   \<and> sorted_wrt (\<lambda>a b. m_match_score a \<ge> m_match_score b)
        [\<lparr>m_job_id = ''job_001'', m_title = ''Senior ML Engineer'', m_company = ''TechCorp'',
          m_match_score = 100, m_key_matches = {''Python'', ''Machine Learning'', ''Cloud''}\<rparr>,
         \<lparr>m_job_id = ''job_002'', m_title = ''Data Engineer'', m_company = ''DataFlow Inc'',
          m_match_score = 100, m_key_matches = {''Python'', ''SQL'', ''Docker''}\<rparr>,
         \<lparr>m_job_id = ''job_004'', m_title = ''Python Developer'', m_company = ''TechCorp'',
          m_match_score = 100, m_key_matches = {''Python''}\<rparr>]"
proof -
  have run: "fst (match_jobs
         \<lparr>name = ''Alice Johnson'', email = ''alice@example.com'', resume_text = sample_resume,
          skills = [''Python'', ''Machine Learning'', ''Cloud'', ''Docker'', ''SQL'', ''API''],
          experience_years = 5\<rparr>
         (\<lparr>j_id = Some ''job_000'', j_title = Some ''Data Analyst'',
           j_company = Some ''DataFlow Inc'',
           j_required_skills = Some [''Data Analysis'', ''Java''],
           j_years_experience_required = Some 1\<rparr>
          # sample_jobs
          @ [\<lparr>j_id = Some ''job_004'', j_title = Some ''Python Developer'',
              j_company = Some ''TechCorp'',
              j_required_skills = Some [''Python''],
              j_years_experience_required = Some 5\<rparr>])
         ''2025-01-01T00:00:00''
         (RecruitmentAgent_init None ''gemini-2.0-flash'')) =
     Inr \<lparr>mr_candidate_id = ''Alice Johnson'', mr_total_matches_found = 4,
          mr_top_matches =
            [\<lparr>m_job_id = ''job_001'', m_title = ''Senior ML Engineer'', m_company = ''TechCorp'',
              m_match_score = 100, m_key_matches = {''Python'', ''Machine Learning'', ''Cloud''}\<rparr>,
             \<lparr>m_job_id = ''job_002'', m_title = ''Data Engineer'', m_company = ''DataFlow Inc'',
              m_match_score = 100, m_key_matches = {''Python'', ''SQL'', ''Docker''}\<rparr>,
             \<lparr>m_job_id = ''job_004'', m_title = ''Python Developer'', m_company = ''TechCorp'',
              m_match_score = 100, m_key_matches = {''Python''}\<rparr>],
          mr_timestamp = ''2025-01-01T00:00:00''\<rparr>"
    by code_simp
  show ?thesis
    using run top_matches_sorted_capped_filtered [THEN conjunct1, rule_format, OF run]
    by simp
qed

section \<open>The workflow and the session memory\<close>

lemma agent_effects:
  "session_state (logger_info msg self) = session_state self"
  "logged (logger_info msg self) = logged self @ [(INFO, msg)]"
  "session_state (logger_warning msg self) = session_state self"
  "logged (logger_warning msg self) = logged self @ [(WARNING, msg)]"
  "session_state (save_to_memory key v self) = (session_state self)(key \<mapsto> v)"
  "logged (save_to_memory key v self) = logged self"
  by (simp_all add: logger_info_def logger_warning_def save_to_memory_def)

lemma screen_candidate_state:
  "snd (screen_candidate resume jd now self) =
     save_to_memory ''screening_result''
       (ScreeningValue (fst (screen_candidate resume jd now self)))
       (logger_info ''Screening candidate resume against job'' self)"
  by (simp add: screen_candidate_def Let_def)

lemma match_jobs_state:
  "snd (match_jobs c jobs now self) =
     (case fst (match_jobs c jobs now self) of
        Inl e \<Rightarrow> logger_info (''Matching jobs for candidate: '' @ name c) self
      | Inr matching \<Rightarrow>
          save_to_memory ''matching_result'' (MatchingValue matching)
            (logger_info (''Matching jobs for candidate: '' @ name c) self))"
  by (simp add: match_jobs_def Let_def split: sum.splits)

lemma generate_interview_state:
  "snd (generate_interview role sk now self) =
     save_to_memory ''interview_questions''
       (InterviewValue (fst (generate_interview role sk now self)))
       (logger_info (''Generating interview questions for role: '' @ role) self)"
  by (simp add: generate_interview_def Let_def)

lemma interview_step_cases:
  "interview_step matching c now self =
     (case mr_top_matches matching of
        [] \<Rightarrow> (NO_MATCHES, self)
      | best # _ \<Rightarrow>
          (InterviewPlan (fst (generate_interview (m_title best) (skills c) now self)),
           snd (generate_interview (m_title best) (skills c) now self)))"
  by (simp add: interview_step_def split: list.splits prod.splits)

lemma full_workflow_missing:
  "cd_name cd = None \<Longrightarrow> full_workflow cd jd jobs clk self = (Inl (KeyError ''name''), self)"
  "cd_name cd = Some nm \<Longrightarrow> cd_resume cd = None \<Longrightarrow>
     full_workflow cd jd jobs clk self =
       (Inl (KeyError ''resume''), logger_info (''Starting full workflow for: '' @ nm) self)"
  by (simp_all add: full_workflow_def)

lemma full_workflow_screened:
  assumes "cd_name cd = Some nm" "cd_resume cd = Some resume"
  shows "full_workflow cd jd jobs clk self =
    (let sc = screen_candidate resume jd (t_screening clk)
                (logger_info (''Starting full workflow for: '' @ nm) self)
     in if sr_recommendation (fst sc) = REJECT
        then (Inr (Rejected \<lparr>rj_status = ''REJECTED'', rj_stage = ''screening'',
                             rj_result = fst sc\<rparr>),
              logger_warning (''Candidate '' @ nm @ '' rejected in screening'') (snd sc))
        else case cd_email cd of
               None \<Rightarrow> (Inl (KeyError ''email''), snd sc)
             | Some em \<Rightarrow>
                 (let candidate =
                        \<lparr>name = nm, email = em, resume_text = resume,
                         skills = dict_get (cd_skills cd) [],
                         experience_years = dict_get (cd_experience_years cd) 0\<rparr>;
                      mj = match_jobs candidate jobs (t_matching clk) (snd sc)
                  in case fst mj of
                       Inl e \<Rightarrow> (Inl e, snd mj)
                     | Inr matching \<Rightarrow>
                         (let iv = interview_step matching candidate (t_interview clk) (snd mj)
                          in (Inr (Completed
                                \<lparr>wr_candidate_name = nm,
                                 wr_overall_status = ''COMPLETED'',
                                 wr_screening = fst sc,
                                 wr_matching = matching,
                                 wr_interview = fst iv,
                                 wr_timestamp = t_workflow clk\<rparr>),
                              logger_info (''Workflow completed for '' @ nm) (snd iv)))))"
  using assms
  by (simp add: full_workflow_def Let_def split: prod.splits sum.splits option.splits)


lemma full_workflow_log_prefix:
  assumes "cd_name cd = Some nm" "cd_resume cd = Some resume" "cd_email cd = Some em"
    and "sr_recommendation (fst (screen_candidate resume jd (t_screening clk)
           (logger_info (''Starting full workflow for: '' @ nm) self))) \<noteq> REJECT"
  shows "prefix
     (logged self @ [(INFO, ''Starting full workflow for: '' @ nm),
                  (INFO, ''Screening candidate resume against job''),
                  (INFO, ''Matching jobs for candidate: '' @ nm)])
     (logged (snd (full_workflow cd jd jobs clk self)))"
  using assms
  by (auto simp: full_workflow_screened Let_def agent_effects screen_candidate_state
      match_jobs_state interview_step_cases generate_interview_state prefix_def
      split: sum.splits list.splits)

text \<open>
  Claim C1. A candidate dictionary without \<open>name\<close> or \<open>resume\<close> fails before the
  screening. Otherwise the workflow returns the rejection
  \<open>{status: REJECTED, stage: screening, result}\<close> exactly when the screening recommends
  REJECT; in that case the run ends with the memory holding the screening result alone as
  its new entry and with the log records of the start, the screening and the rejection,
  so neither \<open>match_jobs\<close> nor \<open>generate_interview\<close> has run. When the recommendation is
  not REJECT the workflow goes on to its matching step: it builds the profile (a
  dictionary without \<open>email\<close> fails there) and calls \<open>match_jobs\<close>, as the log shows, and
  the run ends with the lookup failure of \<open>match_jobs\<close> or with a completed result that
  carries the matching result.
\<close>

theorem full_workflow_halts_iff_reject:
  fixes cd jd jobs clk self nm resume
  defines "out \<equiv> full_workflow cd jd jobs clk self"
  defines "sc \<equiv> screen_candidate resume jd (t_screening clk)
                  (logger_info (''Starting full workflow for: '' @ nm) self)"
  shows
  "(cd_name cd = None \<or> cd_resume cd = None \<longrightarrow> (\<exists>k. fst out = Inl (KeyError k)))
   \<and> (cd_name cd = Some nm \<and> cd_resume cd = Some resume \<longrightarrow>
       ((\<exists>r. fst out = Inr (Rejected r)) \<longleftrightarrow> sr_recommendation (fst sc) = REJECT)
       \<and> (sr_recommendation (fst sc) = REJECT \<longrightarrow>
            fst out = Inr (Rejected \<lparr>rj_status = ''REJECTED'', rj_stage = ''screening'',
                                    rj_result = fst sc\<rparr>)
            \<and> session_state (snd out) =
                (session_state self)(''screening_result'' \<mapsto> ScreeningValue (fst sc))
            \<and> logged (snd out) =
                logged self @ [(INFO, ''Starting full workflow for: '' @ nm),
                            (INFO, ''Screening candidate resume against job''),
                            (WARNING, ''Candidate '' @ nm @ '' rejected in screening'')])
       \<and> (sr_recommendation (fst sc) \<noteq> REJECT \<longrightarrow>
            (case cd_email cd of
               None \<Rightarrow> fst out = Inl (KeyError ''email'')
             | Some em \<Rightarrow>
                 prefix
                   (logged self @ [(INFO, ''Starting full workflow for: '' @ nm),
                                (INFO, ''Screening candidate resume against job''),
                                (INFO, ''Matching jobs for candidate: '' @ nm)])
                   (logged (snd out))
                 \<and> (case fst (match_jobs
                                \<lparr>name = nm, email = em, resume_text = resume,
                                 skills = dict_get (cd_skills cd) [],
                                 experience_years = dict_get (cd_experience_years cd) 0\<rparr>
                                jobs (t_matching clk) (snd sc)) of
                      Inl e \<Rightarrow> fst out = Inl e
                    | Inr matching \<Rightarrow>
                        (\<exists>w. fst out = Inr (Completed w) \<and> wr_matching w = matching)))))"
proof (intro conjI impI)
  assume "cd_name cd = None \<or> cd_resume cd = None"
  then show "\<exists>k. fst out = Inl (KeyError k)"
    unfolding out_def by (cases "cd_name cd") (auto simp: full_workflow_missing)
next
  assume a: "cd_name cd = Some nm \<and> cd_resume cd = Some resume"
  then have 1: "full_workflow cd jd jobs clk self = full_workflow cd jd jobs clk self"
    and nm: "cd_name cd = Some nm" and resume: "cd_resume cd = Some resume"
    by simp_all
  note unfold = full_workflow_screened [OF nm resume, of jd jobs clk self, folded sc_def out_def]
  show "(\<exists>r. fst out = Inr (Rejected r)) \<longleftrightarrow> sr_recommendation (fst sc) = REJECT"
    by (auto simp: unfold Let_def split: option.splits sum.splits)
next
  assume a: "cd_name cd = Some nm \<and> cd_resume cd = Some resume"
    and r: "sr_recommendation (fst sc) = REJECT"
  then have nm: "cd_name cd = Some nm" and resume: "cd_resume cd = Some resume"
    by simp_all
  note unfold = full_workflow_screened [OF nm resume, of jd jobs clk self, folded sc_def out_def]
  show "fst out = Inr (Rejected \<lparr>rj_status = ''REJECTED'', rj_stage = ''screening'',
                                    rj_result = fst sc\<rparr>)"
    using r by (simp add: unfold Let_def)
  show "session_state (snd out) =
          (session_state self)(''screening_result'' \<mapsto> ScreeningValue (fst sc))"
    using r by (simp add: unfold Let_def agent_effects)
      (simp add: sc_def screen_candidate_state agent_effects)
  show "logged (snd out) =
          logged self @ [(INFO, ''Starting full workflow for: '' @ nm),
                      (INFO, ''Screening candidate resume against job''),
                      (WARNING, ''Candidate '' @ nm @ '' rejected in screening'')]"
    using r by (simp add: unfold Let_def agent_effects)
      (simp add: sc_def screen_candidate_state agent_effects)
next
  assume a: "cd_name cd = Some nm \<and> cd_resume cd = Some resume"
    and r: "sr_recommendation (fst sc) \<noteq> REJECT"
  then have nm: "cd_name cd = Some nm" and resume: "cd_resume cd = Some resume"
    by simp_all
  note unfold = full_workflow_screened [OF nm resume, of jd jobs clk self, folded sc_def out_def]
  show "case cd_email cd of
               None \<Rightarrow> fst out = Inl (KeyError ''email'')
             | Some em \<Rightarrow>
                 prefix
                   (logged self @ [(INFO, ''Starting full workflow for: '' @ nm),
                                (INFO, ''Screening candidate resume against job''),
                                (INFO, ''Matching jobs for candidate: '' @ nm)])
                   (logged (snd out))
                 \<and> (case fst (match_jobs
                                \<lparr>name = nm, email = em, resume_text = resume,
                                 skills = dict_get (cd_skills cd) [],
                                 experience_years = dict_get (cd_experience_years cd) 0\<rparr>
                                jobs (t_matching clk) (snd sc)) of
                      Inl e \<Rightarrow> fst out = Inl e
                    | Inr matching \<Rightarrow>
                        (\<exists>w. fst out = Inr (Completed w) \<and> wr_matching w = matching))"
  proof (cases "cd_email cd")
    case None
    with r show ?thesis by (simp add: unfold Let_def)
  next
    case (Some em)
    have "prefix
            (logged self @ [(INFO, ''Starting full workflow for: '' @ nm),
                         (INFO, ''Screening candidate resume against job''),
                         (INFO, ''Matching jobs for candidate: '' @ nm)])
            (logged (snd out))"
      unfolding out_def
      using full_workflow_log_prefix [OF nm resume Some] r [unfolded sc_def] by blast
    with Some r show ?thesis
      by (simp add: unfold Let_def split: sum.splits)
  qed
qed

theorem full_workflow_halts_iff_reject_witness:
  "fst (full_workflow
         \<lparr>cd_name = Some ''Bob Stone'', cd_email = Some ''bob@example.com'',
          cd_resume = Some ''Java developer, ten years of backend work.'',
          cd_skills = Some [''Java''], cd_experience_years = Some 10\<rparr>
         sample_job_description sample_jobs
         \<lparr>t_screening = ''2025-01-01T00:00:01'', t_matching = ''2025-01-01T00:00:02'',
          t_interview = ''2025-01-01T00:00:03'', t_workflow = ''2025-01-01T00:00:04''\<rparr>
         (RecruitmentAgent_init None ''gemini-2.0-flash'')) =
     Inr (Rejected
           \<lparr>rj_status = ''REJECTED'', rj_stage = ''screening'',
            rj_result =
              \<lparr>sr_match_score = 0, sr_resume_skills = [''Java''],
               sr_required_skills = [''Python'', ''Machine Learning'', ''Cloud'', ''SQL'', ''API''],
               sr_recommendation = REJECT, sr_timestamp = ''2025-01-01T00:00:01''\<rparr>\<rparr>)
   \<and> logged (snd (full_workflow
         \<lparr>cd_name = Some ''Bob Stone'', cd_email = Some ''bob@example.com'',
          cd_resume = Some ''Java developer, ten years of backend work.'',
          cd_skills = Some [''Java''], cd_experience_years = Some 10\<rparr>
         sample_job_description sample_jobs
         \<lparr>t_screening = ''2025-01-01T00:00:01'', t_matching = ''2025-01-01T00:00:02'',
          t_interview = ''2025-01-01T00:00:03'', t_workflow = ''2025-01-01T00:00:04''\<rparr>
         (RecruitmentAgent_init None ''gemini-2.0-flash''))) =
     [(INFO, ''Initialized RecruitmentAgent with model: gemini-2.0-flash''),
      (INFO, ''Starting full workflow for: Bob Stone''),
      (INFO, ''Screening candidate resume against job''),
      (WARNING, ''Candidate Bob Stone rejected in screening'')]
   \<and> prefix
        [(INFO, ''Initialized RecruitmentAgent with model: gemini-2.0-flash''),
         (INFO, ''Starting full workflow for: Alice Johnson''),
         (INFO, ''Screening candidate resume against job''),
         (INFO, ''Matching jobs for candidate: Alice Johnson'')]
        (logged (snd (full_workflow sample_candidate sample_job_description sample_jobs
           \<lparr>t_screening = ''2025-01-01T00:00:01'', t_matching = ''2025-01-01T00:00:02'',
            t_interview = ''2025-01-01T00:00:03'', t_workflow = ''2025-01-01T00:00:04''\<rparr>
           (RecruitmentAgent_init None ''gemini-2.0-flash''))))"
proof -
  have rej: "fst (screen_candidate ''Java developer, ten years of backend work.''
                sample_job_description ''2025-01-01T00:00:01''
                (logger_info (''Starting full workflow for: '' @ ''Bob Stone'')
                   (RecruitmentAgent_init None ''gemini-2.0-flash''))) =
      \<lparr>sr_match_score = 0, sr_resume_skills = [''Java''],
       sr_required_skills = [''Python'', ''Machine Learning'', ''Cloud'', ''SQL'', ''API''],
       sr_recommendation = REJECT, sr_timestamp = ''2025-01-01T00:00:01''\<rparr>"
    by (rule java_screening)
  have pass: "sr_recommendation
      (fst (screen_candidate sample_resume sample_job_description ''2025-01-01T00:00:01''
             (logger_info (''Starting full workflow for: '' @ ''Alice Johnson'')
                (RecruitmentAgent_init None ''gemini-2.0-flash'')))) \<noteq> REJECT"
    by (simp add: sample_screening)
  note a = full_workflow_halts_iff_reject
      [where cd = "\<lparr>cd_name = Some ''Bob Stone'', cd_email = Some ''bob@example.com'',
          cd_resume = Some ''Java developer, ten years of backend work.'',
          cd_skills = Some [''Java''], cd_experience_years = Some 10\<rparr>"
        and nm = "''Bob Stone''" and resume = "''Java developer, ten years of backend work.''"
        and jd = sample_job_description and jobs = sample_jobs
        and clk = "\<lparr>t_screening = ''2025-01-01T00:00:01'', t_matching = ''2025-01-01T00:00:02'',
          t_interview = ''2025-01-01T00:00:03'', t_workflow = ''2025-01-01T00:00:04''\<rparr>"
        and self = "RecruitmentAgent_init None ''gemini-2.0-flash''"]
  note b = full_workflow_halts_iff_reject
      [where cd = sample_candidate
        and nm = "''Alice Johnson''" and resume = sample_resume
        and jd = sample_job_description and jobs = sample_jobs
        and clk = "\<lparr>t_screening = ''2025-01-01T00:00:01'', t_matching = ''2025-01-01T00:00:02'',
          t_interview = ''2025-01-01T00:00:03'', t_workflow = ''2025-01-01T00:00:04''\<rparr>"
        and self = "RecruitmentAgent_init None ''gemini-2.0-flash''"]
  from a rej have 1: "fst (full_workflow
         \<lparr>cd_name = Some ''Bob Stone'', cd_email = Some ''bob@example.com'',
          cd_resume = Some ''Java developer, ten years of backend work.'',
          cd_skills = Some [''Java''], cd_experience_years = Some 10\<rparr>
         sample_job_description sample_jobs
         \<lparr>t_screening = ''2025-01-01T00:00:01'', t_matching = ''2025-01-01T00:00:02'',
          t_interview = ''2025-01-01T00:00:03'', t_workflow = ''2025-01-01T00:00:04''\<rparr>
         (RecruitmentAgent_init None ''gemini-2.0-flash'')) =
     Inr (Rejected
           \<lparr>rj_status = ''REJECTED'', rj_stage = ''screening'',
            rj_result =
              \<lparr>sr_match_score = 0, sr_resume_skills = [''Java''],
               sr_required_skills = [''Python'', ''Machine Learning'', ''Cloud'', ''SQL'', ''API''],
               sr_recommendation = REJECT, sr_timestamp = ''2025-01-01T00:00:01''\<rparr>\<rparr>)"
    by simp
  from a rej have 2: "logged (snd (full_workflow
         \<lparr>cd_name = Some ''Bob Stone'', cd_email = Some ''bob@example.com'',
          cd_resume = Some ''Java developer, ten years of backend work.'',
          cd_skills = Some [''Java''], cd_experience_years = Some 10\<rparr>
         sample_job_description sample_jobs
         \<lparr>t_screening = ''2025-01-01T00:00:01'', t_matching = ''2025-01-01T00:00:02'',
          t_interview = ''2025-01-01T00:00:03'', t_workflow = ''2025-01-01T00:00:04''\<rparr>
         (RecruitmentAgent_init None ''gemini-2.0-flash''))) =
     [(INFO, ''Initialized RecruitmentAgent with model: gemini-2.0-flash''),
      (INFO, ''Starting full workflow for: Bob Stone''),
      (INFO, ''Screening candidate resume against job''),
      (WARNING, ''Candidate Bob Stone rejected in screening'')]"
    by (simp add: RecruitmentAgent_init_def)
  from b pass have 3: "prefix
        [(INFO, ''Initialized RecruitmentAgent with model: gemini-2.0-flash''),
         (INFO, ''Starting full workflow for: Alice Johnson''),
         (INFO, ''Screening candidate resume against job''),
         (INFO, ''Matching jobs for candidate: Alice Johnson'')]
        (logged (snd (full_workflow sample_candidate sample_job_description sample_jobs
           \<lparr>t_screening = ''2025-01-01T00:00:01'', t_matching = ''2025-01-01T00:00:02'',
            t_interview = ''2025-01-01T00:00:03'', t_workflow = ''2025-01-01T00:00:04''\<rparr>
           (RecruitmentAgent_init None ''gemini-2.0-flash''))))"
    by (simp add: sample_candidate_def RecruitmentAgent_init_def)
  from 1 2 3 show ?thesis by (intro conjI)
qed

lemma generate_interview_result:
  "fst (generate_interview role sk now self) =
     \<lparr>ir_role = role,
      ir_total_questions = 5,
      ir_questions =
        [\<lparr>q_id = 1, q_category = ''Technical'',
          q_question = ''Describe your experience with ''
            @ (case sk of [] \<Rightarrow> ''software development'' | s # _ \<Rightarrow> s) @ ''?''\<rparr>,
         \<lparr>q_id = 2, q_category = ''Technical'',
          q_question = ''Walk us through a challenging project you've worked on.''\<rparr>,
         \<lparr>q_id = 3, q_category = ''Behavioral'',
          q_question = ''How do you handle conflicts in a team environment?''\<rparr>,
         \<lparr>q_id = 4, q_category = ''Behavioral'',
          q_question = ''Tell us about a time you failed and what you learned.''\<rparr>,
         \<lparr>q_id = 5, q_category = ''Role-Specific'',
          q_question = ''Why are you interested in this '' @ role @ '' position?''\<rparr>],
      ir_difficulty_level = ''MEDIUM'',
      ir_timestamp = now\<rparr>"
  by (simp add: generate_interview_def Let_def)

lemma full_workflow_completed:
  assumes "cd_name cd = Some nm" "cd_resume cd = Some resume" "cd_email cd = Some em"
    and "sr_recommendation (fst (screen_candidate resume jd (t_screening clk)
           (logger_info (''Starting full workflow for: '' @ nm) self))) \<noteq> REJECT"
    and "fst (match_jobs
                \<lparr>name = nm, email = em, resume_text = resume,
                 skills = dict_get (cd_skills cd) [],
                 experience_years = dict_get (cd_experience_years cd) 0\<rparr>
                jobs (t_matching clk)
                (snd (screen_candidate resume jd (t_screening clk)
                   (logger_info (''Starting full workflow for: '' @ nm) self)))) = Inr matching"
  shows "fst (full_workflow cd jd jobs clk self) =
     Inr (Completed
       \<lparr>wr_candidate_name = nm,
        wr_overall_status = ''COMPLETED'',
        wr_screening = fst (screen_candidate resume jd (t_screening clk)
           (logger_info (''Starting full workflow for: '' @ nm) self)),
        wr_matching = matching,
        wr_interview =
          (case mr_top_matches matching of
             [] \<Rightarrow> NO_MATCHES
           | best # _ \<Rightarrow>
               InterviewPlan
                 (fst (generate_interview (m_title best) (dict_get (cd_skills cd) [])
                         (t_interview clk) self))),
        wr_timestamp = t_workflow clk\<rparr>)"
  using assms
  by (simp add: full_workflow_screened Let_def interview_step_cases generate_interview_result
      split: list.splits)

text \<open>
  Claim C6. An interview plan has exactly five questions, tagged Technical, Technical,
  Behavioral, Behavioral and Role-Specific; the first asks about the first skill of the
  list it is given, or about "software development" when that list is empty, and the last
  names the role. A workflow run that reaches the interview step (the candidate dictionary
  has its keys, the screening does not reject, \<open>match_jobs\<close> returns a result) completes
  with status COMPLETED: with the plan for the title of the first top match and the
  candidate's skills when there is a match, and with the sentinel \<open>NO_MATCHES\<close> when there
  is none.
\<close>

theorem interview_plan_or_sentinel:
  fixes cd jd jobs clk self nm resume em matching role sk now
  defines "sc \<equiv> screen_candidate resume jd (t_screening clk)
                  (logger_info (''Starting full workflow for: '' @ nm) self)"
  defines "candidate \<equiv> \<lparr>name = nm, email = em, resume_text = resume,
                          skills = dict_get (cd_skills cd) [],
                          experience_years = dict_get (cd_experience_years cd) 0\<rparr>"
  defines "mj \<equiv> match_jobs candidate jobs (t_matching clk) (snd sc)"
  defines "plan \<equiv> fst (generate_interview role sk now self)"
  shows
  "(ir_role plan = role
    \<and> length (ir_questions plan) = 5 \<and> ir_total_questions plan = 5
    \<and> map q_category (ir_questions plan) =
        [''Technical'', ''Technical'', ''Behavioral'', ''Behavioral'', ''Role-Specific'']
    \<and> map q_question (ir_questions plan) =
        [''Describe your experience with ''
           @ (case sk of [] \<Rightarrow> ''software development'' | s # _ \<Rightarrow> s) @ ''?'',
         ''Walk us through a challenging project you've worked on.'',
         ''How do you handle conflicts in a team environment?'',
         ''Tell us about a time you failed and what you learned.'',
         ''Why are you interested in this '' @ role @ '' position?''])
   \<and> (cd_name cd = Some nm \<and> cd_resume cd = Some resume \<and> cd_email cd = Some em
       \<and> sr_recommendation (fst sc) \<noteq> REJECT
       \<and> fst mj = Inr matching
      \<longrightarrow>
       (\<exists>w. fst (full_workflow cd jd jobs clk self) = Inr (Completed w)
          \<and> wr_overall_status w = ''COMPLETED''
          \<and> wr_matching w = matching
          \<and> (case mr_top_matches matching of
                [] \<Rightarrow> wr_interview w = NO_MATCHES
              | best # _ \<Rightarrow>
                  wr_interview w =
                    InterviewPlan
                      (fst (generate_interview (m_title best) (dict_get (cd_skills cd) [])
                              (t_interview clk) (snd mj))))))"
proof (intro conjI impI)
  assume a: "cd_name cd = Some nm \<and> cd_resume cd = Some resume \<and> cd_email cd = Some em
       \<and> sr_recommendation (fst sc) \<noteq> REJECT
       \<and> fst mj = Inr matching"
  then have "cd_name cd = Some nm" "cd_resume cd = Some resume" "cd_email cd = Some em"
    "sr_recommendation (fst sc) \<noteq> REJECT"
    "fst mj = Inr matching"
    by simp_all
  note c = full_workflow_completed [OF this [unfolded sc_def candidate_def mj_def]]
  show "\<exists>w. fst (full_workflow cd jd jobs clk self) = Inr (Completed w)
          \<and> wr_overall_status w = ''COMPLETED''
          \<and> wr_matching w = matching
          \<and> (case mr_top_matches matching of
                [] \<Rightarrow> wr_interview w = NO_MATCHES
              | best # _ \<Rightarrow>
                  wr_interview w =
                    InterviewPlan
                      (fst (generate_interview (m_title best) (dict_get (cd_skills cd) [])
                              (t_interview clk) (snd mj))))"
    unfolding c by (simp add: generate_interview_result split: list.splits)
qed (simp_all add: plan_def generate_interview_result)


lemma stage_memory:
  "session_state (snd (screen_candidate resume jd now self)) =
     (session_state self)(''screening_result'' \<mapsto>
        ScreeningValue (fst (screen_candidate resume jd now self)))"
  "session_state (snd (generate_interview role sk now self)) =
     (session_state self)(''interview_questions'' \<mapsto>
        InterviewValue (fst (generate_interview role sk now self)))"
  "session_state (snd (match_jobs c jobs now self)) =
     (case fst (match_jobs c jobs now self) of
        Inl e \<Rightarrow> session_state self
      | Inr matching \<Rightarrow> (session_state self)(''matching_result'' \<mapsto> MatchingValue matching))"
  by (simp_all add: screen_candidate_state generate_interview_state match_jobs_state
      agent_effects split: sum.splits)

lemma match_jobs_fst_state:
  "fst (match_jobs c jobs now self) = fst (match_jobs c jobs now self')"
  by (simp add: match_jobs_def Let_def split: sum.splits)

lemma full_workflow_memory:
  assumes "cd_name cd = Some nm" "cd_resume cd = Some resume"
  shows "session_state (snd (full_workflow cd jd jobs clk self)) =
    (let sc = screen_candidate resume jd (t_screening clk)
                (logger_info (''Starting full workflow for: '' @ nm) self);
         m1 = (session_state self)(''screening_result'' \<mapsto> ScreeningValue (fst sc))
     in case fst (full_workflow cd jd jobs clk self) of
          Inl e \<Rightarrow> m1
        | Inr (Rejected r) \<Rightarrow> m1
        | Inr (Completed w) \<Rightarrow>
            (case wr_interview w of
               NO_MATCHES \<Rightarrow> m1(''matching_result'' \<mapsto> MatchingValue (wr_matching w))
             | InterviewPlan iv \<Rightarrow>
                 m1(''matching_result'' \<mapsto> MatchingValue (wr_matching w),
                    ''interview_questions'' \<mapsto> InterviewValue iv)))"
  by (simp add: full_workflow_screened [OF assms] Let_def stage_memory agent_effects
      interview_step_cases split: option.splits sum.splits list.splits)


lemma full_workflow_dom:
  "dom (session_state (snd (full_workflow cd jd jobs clk self)))
     \<subseteq> dom (session_state self)
         \<union> {''screening_result'', ''matching_result'', ''interview_questions''}"
proof (cases "cd_name cd")
  case None
  then show ?thesis by (auto simp: full_workflow_missing)
next
  case (Some nm)
  show ?thesis
  proof (cases "cd_resume cd")
    case None
    with Some show ?thesis by (auto simp: full_workflow_missing agent_effects)
  next
    case (Some resume)
    show ?thesis
      unfolding full_workflow_memory [OF \<open>cd_name cd = Some nm\<close> Some]
      by (auto simp: Let_def split: sum.splits workflow_result.splits interview_outcome.splits)
  qed
qed

text \<open>
  Claim C7, as the code has it. Each stage leaves the memory it was given with one change: its own key now
  holds the result it returns (a \<open>match_jobs\<close> that fails on a lookup changes nothing).
  After a workflow run the memory holds, under the stage keys, the very results the run
  returned: the screening result alone after a rejection; the screening and matching
  results after completion, with the interview plan under its key when a plan was made and
  that key untouched when the sentinel was substituted. A run that fails after the
  screening leaves the screening result recorded, so it was written before the next stage
  ran. The run adds no key besides the three stage keys, a new agent starts with an empty
  memory, and a repeated call of a stage leaves the memory as if the earlier call had not
  happened.
\<close>

theorem session_memory_records_stage_results:
  fixes cd jd jobs clk self
  defines "out \<equiv> full_workflow cd jd jobs clk self"
  defines "mem \<equiv> get_session_state (snd out)"
  shows
  "session_state (snd (screen_candidate resume jd' now self)) =
     (session_state self)(''screening_result'' \<mapsto>
        ScreeningValue (fst (screen_candidate resume jd' now self)))
   \<and> (case fst (match_jobs c jobs' now self) of
        Inl e \<Rightarrow> session_state (snd (match_jobs c jobs' now self)) = session_state self
      | Inr matching \<Rightarrow>
          session_state (snd (match_jobs c jobs' now self)) =
            (session_state self)(''matching_result'' \<mapsto> MatchingValue matching))
   \<and> session_state (snd (generate_interview role sk now self)) =
       (session_state self)(''interview_questions'' \<mapsto>
          InterviewValue (fst (generate_interview role sk now self)))
   \<and> (fst out = Inr (Rejected r) \<longrightarrow>
        mem = (session_state self)(''screening_result'' \<mapsto> ScreeningValue (rj_result r)))
   \<and> (fst out = Inr (Completed w) \<longrightarrow>
        mem ''screening_result'' = Some (ScreeningValue (wr_screening w))
        \<and> mem ''matching_result'' = Some (MatchingValue (wr_matching w))
        \<and> (case wr_interview w of
              InterviewPlan iv \<Rightarrow> mem ''interview_questions'' = Some (InterviewValue iv)
            | NO_MATCHES \<Rightarrow>
                mem ''interview_questions'' = session_state self ''interview_questions''))
   \<and> (cd_name cd = Some nm \<and> cd_resume cd = Some resume' \<and> fst out = Inl err \<longrightarrow>
        mem = (session_state self)(''screening_result'' \<mapsto>
                 ScreeningValue
                   (fst (screen_candidate resume' jd (t_screening clk)
                           (logger_info (''Starting full workflow for: '' @ nm) self)))))
   \<and> dom mem \<subseteq> dom (session_state self)
                 \<union> {''screening_result'', ''matching_result'', ''interview_questions''}
   \<and> get_session_state (RecruitmentAgent_init key mdl) = Map.empty
   \<and> session_state (snd (screen_candidate resume2 jd2 now2
                            (snd (screen_candidate resume jd' now self)))) =
       session_state (snd (screen_candidate resume2 jd2 now2 self))
   \<and> session_state (snd (generate_interview role2 sk2 now2
                            (snd (generate_interview role sk now self)))) =
       session_state (snd (generate_interview role2 sk2 now2 self))
   \<and> (fst (match_jobs c2 jobs2 now2 self) = Inr matching2 \<longrightarrow>
        session_state (snd (match_jobs c2 jobs2 now2 (snd (match_jobs c jobs' now self)))) =
          (session_state self)(''matching_result'' \<mapsto> MatchingValue matching2))"
proof -
  have stages: "session_state (snd (screen_candidate resume jd' now self)) =
     (session_state self)(''screening_result'' \<mapsto>
        ScreeningValue (fst (screen_candidate resume jd' now self)))"
    "case fst (match_jobs c jobs' now self) of
        Inl e \<Rightarrow> session_state (snd (match_jobs c jobs' now self)) = session_state self
      | Inr matching \<Rightarrow>
          session_state (snd (match_jobs c jobs' now self)) =
            (session_state self)(''matching_result'' \<mapsto> MatchingValue matching)"
    "session_state (snd (generate_interview role sk now self)) =
       (session_state self)(''interview_questions'' \<mapsto>
          InterviewValue (fst (generate_interview role sk now self)))"
    by (simp_all add: stage_memory split: sum.splits)
  have rejected: "mem = (session_state self)(''screening_result'' \<mapsto> ScreeningValue (rj_result r))"
    if r: "fst out = Inr (Rejected r)"
  proof -
    from r obtain nm0 resume0 where k: "cd_name cd = Some nm0" "cd_resume cd = Some resume0"
      unfolding out_def
      by (cases "cd_name cd"; cases "cd_resume cd") (auto simp: full_workflow_missing)
    have "rj_result r = fst (screen_candidate resume0 jd (t_screening clk)
              (logger_info (''Starting full workflow for: '' @ nm0) self))"
      using r unfolding out_def full_workflow_screened [OF k]
      by (auto simp: Let_def split: if_splits option.splits sum.splits)
    with r show ?thesis
      unfolding mem_def get_session_state_def out_def full_workflow_memory [OF k]
      by (simp add: Let_def)
  qed
  have completed: "mem ''screening_result'' = Some (ScreeningValue (wr_screening w))
        \<and> mem ''matching_result'' = Some (MatchingValue (wr_matching w))
        \<and> (case wr_interview w of
              InterviewPlan iv \<Rightarrow> mem ''interview_questions'' = Some (InterviewValue iv)
            | NO_MATCHES \<Rightarrow>
                mem ''interview_questions'' = session_state self ''interview_questions'')"
    if w: "fst out = Inr (Completed w)"
  proof -
    from w obtain nm0 resume0 where k: "cd_name cd = Some nm0" "cd_resume cd = Some resume0"
      unfolding out_def
      by (cases "cd_name cd"; cases "cd_resume cd") (auto simp: full_workflow_missing)
    have "wr_screening w = fst (screen_candidate resume0 jd (t_screening clk)
              (logger_info (''Starting full workflow for: '' @ nm0) self))"
      using w unfolding out_def full_workflow_screened [OF k]
      by (auto simp: Let_def split: if_splits option.splits sum.splits)
    with w show ?thesis
      unfolding mem_def get_session_state_def out_def full_workflow_memory [OF k]
      by (simp add: Let_def split: interview_outcome.splits)
  qed
  have failed: "mem = (session_state self)(''screening_result'' \<mapsto>
                 ScreeningValue
                   (fst (screen_candidate resume' jd (t_screening clk)
                           (logger_info (''Starting full workflow for: '' @ nm) self))))"
    if "cd_name cd = Some nm \<and> cd_resume cd = Some resume' \<and> fst out = Inl err"
  proof -
    from that have k: "cd_name cd = Some nm" "cd_resume cd = Some resume'"
      and e: "fst out = Inl err" by simp_all
    from e show ?thesis
      unfolding mem_def get_session_state_def out_def full_workflow_memory [OF k]
      by (simp add: Let_def)
  qed
  have dom: "dom mem \<subseteq> dom (session_state self)
                 \<union> {''screening_result'', ''matching_result'', ''interview_questions''}"
    unfolding mem_def get_session_state_def out_def by (rule full_workflow_dom)
  have init: "get_session_state (RecruitmentAgent_init key mdl) = Map.empty"
    by (simp add: get_session_state_def RecruitmentAgent_init_def)
  have again: "session_state (snd (screen_candidate resume2 jd2 now2
                            (snd (screen_candidate resume jd' now self)))) =
       session_state (snd (screen_candidate resume2 jd2 now2 self))"
    "session_state (snd (generate_interview role2 sk2 now2
                            (snd (generate_interview role sk now self)))) =
       session_state (snd (generate_interview role2 sk2 now2 self))"
    by (simp_all add: stage_memory screen_candidate_result generate_interview_result)
  have again_match: "session_state (snd (match_jobs c2 jobs2 now2 (snd (match_jobs c jobs' now self)))) =
          (session_state self)(''matching_result'' \<mapsto> MatchingValue matching2)"
    if "fst (match_jobs c2 jobs2 now2 self) = Inr matching2"
    using that match_jobs_fst_state [of c2 jobs2 now2 "snd (match_jobs c jobs' now self)" self]
    by (simp add: stage_memory split: sum.splits)
  from rejected have rejected': "fst out = Inr (Rejected r) \<longrightarrow>
        mem = (session_state self)(''screening_result'' \<mapsto> ScreeningValue (rj_result r))" ..
  from completed have completed': "fst out = Inr (Completed w) \<longrightarrow>
        mem ''screening_result'' = Some (ScreeningValue (wr_screening w))
        \<and> mem ''matching_result'' = Some (MatchingValue (wr_matching w))
        \<and> (case wr_interview w of
              InterviewPlan iv \<Rightarrow> mem ''interview_questions'' = Some (InterviewValue iv)
            | NO_MATCHES \<Rightarrow>
                mem ''interview_questions'' = session_state self ''interview_questions'')" ..
  from failed have failed':
    "cd_name cd = Some nm \<and> cd_resume cd = Some resume' \<and> fst out = Inl err \<longrightarrow>
        mem = (session_state self)(''screening_result'' \<mapsto>
                 ScreeningValue
                   (fst (screen_candidate resume' jd (t_screening clk)
                           (logger_info (''Starting full workflow for: '' @ nm) self))))" ..
  from again_match have again_match': "fst (match_jobs c2 jobs2 now2 self) = Inr matching2 \<longrightarrow>
        session_state (snd (match_jobs c2 jobs2 now2 (snd (match_jobs c jobs' now self)))) =
          (session_state self)(''matching_result'' \<mapsto> MatchingValue matching2)" ..
  show ?thesis
    using stages rejected' completed' failed' dom init again again_match'
    by (intro conjI) assumption+
qed

section \<open>Runs on the sample data\<close>

lemma sample_keys:
  "cd_name sample_candidate = Some ''Alice Johnson''"
  "cd_resume sample_candidate = Some sample_resume"
  "cd_email sample_candidate = Some ''alice@example.com''"
  "dict_get (cd_skills sample_candidate) [] =
     [''Python'', ''Machine Learning'', ''Cloud'', ''Docker'', ''SQL'', ''API'']"
  "dict_get (cd_experience_years sample_candidate) 0 = 5"
  by (simp_all add: sample_candidate_def dict_get_def)

lemma sample_first_job:
  "fst (match_jobs
         \<lparr>name = ''Alice Johnson'', email = ''alice@example.com'', resume_text = sample_resume,
          skills = [''Python'', ''Machine Learning'', ''Cloud'', ''Docker'', ''SQL'', ''API''],
          experience_years = 5\<rparr>
         [hd sample_jobs] now self) =
     Inr \<lparr>mr_candidate_id = ''Alice Johnson'', mr_total_matches_found = 1,
          mr_top_matches =
            [\<lparr>m_job_id = ''job_001'', m_title = ''Senior ML Engineer'', m_company = ''TechCorp'',
              m_match_score = 100, m_key_matches = {''Python'', ''Machine Learning'', ''Cloud''}\<rparr>],
          mr_timestamp = now\<rparr>"
proof -
  have "match_loop
         \<lparr>name = ''Alice Johnson'', email = ''alice@example.com'', resume_text = sample_resume,
          skills = [''Python'', ''Machine Learning'', ''Cloud'', ''Docker'', ''SQL'', ''API''],
          experience_years = 5\<rparr>
         [hd sample_jobs] [] =
      Inr [\<lparr>m_job_id = ''job_001'', m_title = ''Senior ML Engineer'', m_company = ''TechCorp'',
              m_match_score = 100, m_key_matches = {''Python'', ''Machine Learning'', ''Cloud''}\<rparr>]"
    by code_simp
  then show ?thesis
    by (simp add: match_jobs_def Let_def sort_matches_def)
qed

lemma empty_catalog:
  "fst (match_jobs c [] now self) =
     Inr \<lparr>mr_candidate_id = name c, mr_total_matches_found = 0, mr_top_matches = [],
          mr_timestamp = now\<rparr>"
  by (simp add: match_jobs_def Let_def sort_matches_def)

theorem interview_plan_or_sentinel_witness:
  "(\<exists>w. fst (full_workflow sample_candidate sample_job_description []
              \<lparr>t_screening = ''2025-01-01T00:00:01'', t_matching = ''2025-01-01T00:00:02'',
               t_interview = ''2025-01-01T00:00:03'', t_workflow = ''2025-01-01T00:00:04''\<rparr>
              (RecruitmentAgent_init None ''gemini-2.0-flash'')) = Inr (Completed w)
         \<and> wr_overall_status w = ''COMPLETED'' \<and> wr_interview w = NO_MATCHES)
   \<and> (\<exists>w. fst (full_workflow sample_candidate sample_job_description [hd sample_jobs]
              \<lparr>t_screening = ''2025-01-01T00:00:01'', t_matching = ''2025-01-01T00:00:02'',
               t_interview = ''2025-01-01T00:00:03'', t_workflow = ''2025-01-01T00:00:04''\<rparr>
              (RecruitmentAgent_init None ''gemini-2.0-flash'')) = Inr (Completed w)
         \<and> wr_overall_status w = ''COMPLETED''
         \<and> (\<exists>plan. wr_interview w = InterviewPlan plan
               \<and> length (ir_questions plan) = 5
               \<and> map q_question (ir_questions plan) =
                   [''Describe your experience with Python?'',
                    ''Walk us through a challenging project you've worked on.'',
                    ''How do you handle conflicts in a team environment?'',
                    ''Tell us about a time you failed and what you learned.'',
                    ''Why are you interested in this Senior ML Engineer position?'']))"
proof -
  let ?clk = "\<lparr>t_screening = ''2025-01-01T00:00:01'', t_matching = ''2025-01-01T00:00:02'',
               t_interview = ''2025-01-01T00:00:03'', t_workflow = ''2025-01-01T00:00:04''\<rparr>"
  let ?agent = "RecruitmentAgent_init None ''gemini-2.0-flash''"
  let ?sc = "screen_candidate sample_resume sample_job_description (t_screening ?clk)
               (logger_info (''Starting full workflow for: '' @ ''Alice Johnson'') ?agent)"
  have pass: "sr_recommendation (fst ?sc) \<noteq> REJECT"
    by (simp add: sample_screening)
  note none = interview_plan_or_sentinel
    [where cd = sample_candidate and nm = "''Alice Johnson''" and resume = sample_resume
       and em = "''alice@example.com''" and jd = sample_job_description and jobs = "[]"
       and clk = ?clk and self = ?agent
       and matching = "\<lparr>mr_candidate_id = ''Alice Johnson'', mr_total_matches_found = 0,
                         mr_top_matches = [], mr_timestamp = ''2025-01-01T00:00:02''\<rparr>",
     THEN conjunct2]
  note one = interview_plan_or_sentinel
    [where cd = sample_candidate and nm = "''Alice Johnson''" and resume = sample_resume
       and em = "''alice@example.com''" and jd = sample_job_description
       and jobs = "[hd sample_jobs]"
       and clk = ?clk and self = ?agent
       and role = "''Senior ML Engineer''"
       and sk = "[''Python'', ''Machine Learning'', ''Cloud'', ''Docker'', ''SQL'', ''API'']"
       and now = "''2025-01-01T00:00:03''"
       and matching = "\<lparr>mr_candidate_id = ''Alice Johnson'', mr_total_matches_found = 1,
          mr_top_matches =
            [\<lparr>m_job_id = ''job_001'', m_title = ''Senior ML Engineer'', m_company = ''TechCorp'',
              m_match_score = 100, m_key_matches = {''Python'', ''Machine Learning'', ''Cloud''}\<rparr>],
          mr_timestamp = ''2025-01-01T00:00:02''\<rparr>"]
  have 1: "\<exists>w. fst (full_workflow sample_candidate sample_job_description [] ?clk ?agent)
              = Inr (Completed w)
         \<and> wr_overall_status w = ''COMPLETED'' \<and> wr_interview w = NO_MATCHES"
    using none pass by (simp add: sample_keys empty_catalog) (elim exE conjE, simp)
  have 2: "\<exists>w. fst (full_workflow sample_candidate sample_job_description [hd sample_jobs]
              ?clk ?agent) = Inr (Completed w)
         \<and> wr_overall_status w = ''COMPLETED''
         \<and> (\<exists>plan. wr_interview w = InterviewPlan plan
               \<and> length (ir_questions plan) = 5
               \<and> map q_question (ir_questions plan) =
                   [''Describe your experience with Python?'',
                    ''Walk us through a challenging project you've worked on.'',
                    ''How do you handle conflicts in a team environment?'',
                    ''Tell us about a time you failed and what you learned.'',
                    ''Why are you interested in this Senior ML Engineer position?''])"
    using one pass by (simp add: sample_keys sample_first_job generate_interview_result) (elim exE conjE, simp)
  from 1 2 show ?thesis by (intro conjI)
qed


lemma java_rejected:
  "fst (full_workflow
         \<lparr>cd_name = Some ''Bob Stone'', cd_email = Some ''bob@example.com'',
          cd_resume = Some ''Java developer, ten years of backend work.'',
          cd_skills = Some [''Java''], cd_experience_years = Some 10\<rparr>
         sample_job_description jobs clk self) =
     Inr (Rejected
           \<lparr>rj_status = ''REJECTED'', rj_stage = ''screening'',
            rj_result =
              \<lparr>sr_match_score = 0, sr_resume_skills = [''Java''],
               sr_required_skills = [''Python'', ''Machine Learning'', ''Cloud'', ''SQL'', ''API''],
               sr_recommendation = REJECT, sr_timestamp = t_screening clk\<rparr>\<rparr>)"
  by (simp add: full_workflow_screened
      [where nm = "''Bob Stone''" and resume = "''Java developer, ten years of backend work.''"]
      Let_def java_screening)

lemma sample_empty_completed:
  "fst (full_workflow sample_candidate sample_job_description [] clk self) =
     Inr (Completed
       \<lparr>wr_candidate_name = ''Alice Johnson'',
        wr_overall_status = ''COMPLETED'',
        wr_screening =
          \<lparr>sr_match_score = 100,
           sr_resume_skills =
             [''Python'', ''Machine Learning'', ''Cloud'', ''SQL'', ''API'', ''Docker''],
           sr_required_skills = [''Python'', ''Machine Learning'', ''Cloud'', ''SQL'', ''API''],
           sr_recommendation = PASS,
           sr_timestamp = t_screening clk\<rparr>,
        wr_matching =
          \<lparr>mr_candidate_id = ''Alice Johnson'', mr_total_matches_found = 0,
           mr_top_matches = [], mr_timestamp = t_matching clk\<rparr>,
        wr_interview = NO_MATCHES,
        wr_timestamp = t_workflow clk\<rparr>)"
  by (simp add: full_workflow_completed
      [where nm = "''Alice Johnson''" and resume = sample_resume
         and em = "''alice@example.com''"
         and matching = "\<lparr>mr_candidate_id = ''Alice Johnson'', mr_total_matches_found = 0,
                           mr_top_matches = [], mr_timestamp = t_matching clk\<rparr>"]
      sample_keys sample_screening empty_catalog)

theorem session_memory_records_stage_results_witness:
  "get_session_state
     (snd (full_workflow
            \<lparr>cd_name = Some ''Bob Stone'', cd_email = Some ''bob@example.com'',
             cd_resume = Some ''Java developer, ten years of backend work.'',
             cd_skills = Some [''Java''], cd_experience_years = Some 10\<rparr>
            sample_job_description sample_jobs
            \<lparr>t_screening = ''2025-01-01T00:00:01'', t_matching = ''2025-01-01T00:00:02'',
             t_interview = ''2025-01-01T00:00:03'', t_workflow = ''2025-01-01T00:00:04''\<rparr>
            (RecruitmentAgent_init None ''gemini-2.0-flash''))) =
     [''screening_result'' \<mapsto>
        ScreeningValue
          \<lparr>sr_match_score = 0, sr_resume_skills = [''Java''],
           sr_required_skills = [''Python'', ''Machine Learning'', ''Cloud'', ''SQL'', ''API''],
           sr_recommendation = REJECT, sr_timestamp = ''2025-01-01T00:00:01''\<rparr>]
   \<and> get_session_state
       (snd (full_workflow sample_candidate sample_job_description []
              \<lparr>t_screening = ''2025-01-01T00:00:01'', t_matching = ''2025-01-01T00:00:02'',
               t_interview = ''2025-01-01T00:00:03'', t_workflow = ''2025-01-01T00:00:04''\<rparr>
              (RecruitmentAgent_init None ''gemini-2.0-flash''))) ''matching_result'' =
       Some (MatchingValue
              \<lparr>mr_candidate_id = ''Alice Johnson'', mr_total_matches_found = 0,
               mr_top_matches = [], mr_timestamp = ''2025-01-01T00:00:02''\<rparr>)
   \<and> get_session_state
       (snd (full_workflow sample_candidate sample_job_description []
              \<lparr>t_screening = ''2025-01-01T00:00:01'', t_matching = ''2025-01-01T00:00:02'',
               t_interview = ''2025-01-01T00:00:03'', t_workflow = ''2025-01-01T00:00:04''\<rparr>
              (RecruitmentAgent_init None ''gemini-2.0-flash''))) ''interview_questions'' = None"
proof -
  let ?clk = "\<lparr>t_screening = ''2025-01-01T00:00:01'', t_matching = ''2025-01-01T00:00:02'',
               t_interview = ''2025-01-01T00:00:03'', t_workflow = ''2025-01-01T00:00:04''\<rparr>"
  let ?agent = "RecruitmentAgent_init None ''gemini-2.0-flash''"
  have empty: "session_state ?agent = Map.empty"
    by (simp add: RecruitmentAgent_init_def)
  note rej = session_memory_records_stage_results
    [where cd = "\<lparr>cd_name = Some ''Bob Stone'', cd_email = Some ''bob@example.com'',
             cd_resume = Some ''Java developer, ten years of backend work.'',
             cd_skills = Some [''Java''], cd_experience_years = Some 10\<rparr>"
       and jd = sample_job_description and jobs = sample_jobs and clk = ?clk and self = ?agent
       and r = "\<lparr>rj_status = ''REJECTED'', rj_stage = ''screening'',
            rj_result =
              \<lparr>sr_match_score = 0, sr_resume_skills = [''Java''],
               sr_required_skills = [''Python'', ''Machine Learning'', ''Cloud'', ''SQL'', ''API''],
               sr_recommendation = REJECT, sr_timestamp = t_screening ?clk\<rparr>\<rparr>",
     THEN conjunct2, THEN conjunct2, THEN conjunct2, THEN conjunct1, rule_format,
     OF java_rejected]
  note fin = session_memory_records_stage_results
    [where cd = sample_candidate
       and jd = sample_job_description and jobs = "[]" and clk = ?clk and self = ?agent
       and w = "\<lparr>wr_candidate_name = ''Alice Johnson'',
        wr_overall_status = ''COMPLETED'',
        wr_screening =
          \<lparr>sr_match_score = 100,
           sr_resume_skills =
             [''Python'', ''Machine Learning'', ''Cloud'', ''SQL'', ''API'', ''Docker''],
           sr_required_skills = [''Python'', ''Machine Learning'', ''Cloud'', ''SQL'', ''API''],
           sr_recommendation = PASS,
           sr_timestamp = t_screening ?clk\<rparr>,
        wr_matching =
          \<lparr>mr_candidate_id = ''Alice Johnson'', mr_total_matches_found = 0,
           mr_top_matches = [], mr_timestamp = t_matching ?clk\<rparr>,
        wr_interview = NO_MATCHES,
        wr_timestamp = t_workflow ?clk\<rparr>",
     THEN conjunct2, THEN conjunct2, THEN conjunct2, THEN conjunct2, THEN conjunct1,
     rule_format, OF sample_empty_completed]
  from rej have 1: "get_session_state
     (snd (full_workflow
            \<lparr>cd_name = Some ''Bob Stone'', cd_email = Some ''bob@example.com'',
             cd_resume = Some ''Java developer, ten years of backend work.'',
             cd_skills = Some [''Java''], cd_experience_years = Some 10\<rparr>
            sample_job_description sample_jobs ?clk ?agent)) =
     [''screening_result'' \<mapsto>
        ScreeningValue
          \<lparr>sr_match_score = 0, sr_resume_skills = [''Java''],
           sr_required_skills = [''Python'', ''Machine Learning'', ''Cloud'', ''SQL'', ''API''],
           sr_recommendation = REJECT, sr_timestamp = ''2025-01-01T00:00:01''\<rparr>]"
    by (simp add: empty)
  from fin have 2: "get_session_state
       (snd (full_workflow sample_candidate sample_job_description [] ?clk ?agent))
         ''matching_result'' =
       Some (MatchingValue
              \<lparr>mr_candidate_id = ''Alice Johnson'', mr_total_matches_found = 0,
               mr_top_matches = [], mr_timestamp = ''2025-01-01T00:00:02''\<rparr>)"
    and 3: "get_session_state
       (snd (full_workflow sample_candidate sample_job_description [] ?clk ?agent))
         ''interview_questions'' = None"
    by (simp_all add: empty)
  from 1 2 3 show ?thesis by (intro conjI)
qed

lemma sample_first_completed:
  "fst (full_workflow sample_candidate sample_job_description [hd sample_jobs] clk self) =
     Inr (Completed
       \<lparr>wr_candidate_name = ''Alice Johnson'',
        wr_overall_status = ''COMPLETED'',
        wr_screening =
          \<lparr>sr_match_score = 100,
           sr_resume_skills =
             [''Python'', ''Machine Learning'', ''Cloud'', ''SQL'', ''API'', ''Docker''],
           sr_required_skills = [''Python'', ''Machine Learning'', ''Cloud'', ''SQL'', ''API''],
           sr_recommendation = PASS,
           sr_timestamp = t_screening clk\<rparr>,
        wr_matching =
          \<lparr>mr_candidate_id = ''Alice Johnson'', mr_total_matches_found = 1,
           mr_top_matches =
             [\<lparr>m_job_id = ''job_001'', m_title = ''Senior ML Engineer'',
               m_company = ''TechCorp'', m_match_score = 100,
               m_key_matches = {''Python'', ''Machine Learning'', ''Cloud''}\<rparr>],
           mr_timestamp = t_matching clk\<rparr>,
        wr_interview =
          InterviewPlan
            (fst (generate_interview ''Senior ML Engineer''
                    [''Python'', ''Machine Learning'', ''Cloud'', ''Docker'', ''SQL'', ''API'']
                    (t_interview clk) self)),
        wr_timestamp = t_workflow clk\<rparr>)"
  by (simp add: full_workflow_completed
      [where nm = "''Alice Johnson''" and resume = sample_resume
         and em = "''alice@example.com''"
         and matching = "\<lparr>mr_candidate_id = ''Alice Johnson'', mr_total_matches_found = 1,
           mr_top_matches =
             [\<lparr>m_job_id = ''job_001'', m_title = ''Senior ML Engineer'',
               m_company = ''TechCorp'', m_match_score = 100,
               m_key_matches = {''Python'', ''Machine Learning'', ''Cloud''}\<rparr>],
           mr_timestamp = t_matching clk\<rparr>"]
      sample_keys sample_screening sample_first_job generate_interview_result)

lemma sample_memory:
  "session_state (snd (full_workflow sample_candidate sample_job_description jobs clk self)) =
    (let sc = screen_candidate sample_resume sample_job_description (t_screening clk)
                (logger_info (''Starting full workflow for: '' @ ''Alice Johnson'') self);
         m1 = (session_state self)(''screening_result'' \<mapsto> ScreeningValue (fst sc))
     in case fst (full_workflow sample_candidate sample_job_description jobs clk self) of
          Inl e \<Rightarrow> m1
        | Inr (Rejected r) \<Rightarrow> m1
        | Inr (Completed w) \<Rightarrow>
            (case wr_interview w of
               NO_MATCHES \<Rightarrow> m1(''matching_result'' \<mapsto> MatchingValue (wr_matching w))
             | InterviewPlan iv \<Rightarrow>
                 m1(''matching_result'' \<mapsto> MatchingValue (wr_matching w),
                    ''interview_questions'' \<mapsto> InterviewValue iv)))"
  by (rule full_workflow_memory) (rule sample_keys)+

text \<open>
  The sentinel is returned in the interview slot and recorded nowhere. An agent that ran
  the workflow on the first job of the sample catalog and runs it again on an empty catalog
  returns \<open>NO_MATCHES\<close> while its memory still holds the plan of the first run under
  \<open>interview_questions\<close>; on a new agent the key is absent after the run.
\<close>

theorem sentinel_not_recorded_counterexample:
  "fst (full_workflow sample_candidate sample_job_description []
         \<lparr>t_screening = ''2025-01-02T00:00:01'', t_matching = ''2025-01-02T00:00:02'',
          t_interview = ''2025-01-02T00:00:03'', t_workflow = ''2025-01-02T00:00:04''\<rparr>
         (snd (full_workflow sample_candidate sample_job_description [hd sample_jobs]
                \<lparr>t_screening = ''2025-01-01T00:00:01'', t_matching = ''2025-01-01T00:00:02'',
                 t_interview = ''2025-01-01T00:00:03'', t_workflow = ''2025-01-01T00:00:04''\<rparr>
                (RecruitmentAgent_init None ''gemini-2.0-flash'')))) =
     Inr (Completed
       \<lparr>wr_candidate_name = ''Alice Johnson'',
        wr_overall_status = ''COMPLETED'',
        wr_screening =
          \<lparr>sr_match_score = 100,
           sr_resume_skills =
             [''Python'', ''Machine Learning'', ''Cloud'', ''SQL'', ''API'', ''Docker''],
           sr_required_skills = [''Python'', ''Machine Learning'', ''Cloud'', ''SQL'', ''API''],
           sr_recommendation = PASS,
           sr_timestamp = ''2025-01-02T00:00:01''\<rparr>,
        wr_matching =
          \<lparr>mr_candidate_id = ''Alice Johnson'', mr_total_matches_found = 0,
           mr_top_matches = [], mr_timestamp = ''2025-01-02T00:00:02''\<rparr>,
        wr_interview = NO_MATCHES,
        wr_timestamp = ''2025-01-02T00:00:04''\<rparr>)
   \<and> get_session_state
       (snd (full_workflow sample_candidate sample_job_description []
         \<lparr>t_screening = ''2025-01-02T00:00:01'', t_matching = ''2025-01-02T00:00:02'',
          t_interview = ''2025-01-02T00:00:03'', t_workflow = ''2025-01-02T00:00:04''\<rparr>
         (snd (full_workflow sample_candidate sample_job_description [hd sample_jobs]
                \<lparr>t_screening = ''2025-01-01T00:00:01'', t_matching = ''2025-01-01T00:00:02'',
                 t_interview = ''2025-01-01T00:00:03'', t_workflow = ''2025-01-01T00:00:04''\<rparr>
                (RecruitmentAgent_init None ''gemini-2.0-flash'')))))
       ''interview_questions'' =
     Some (InterviewValue
            (fst (generate_interview ''Senior ML Engineer''
                    [''Python'', ''Machine Learning'', ''Cloud'', ''Docker'', ''SQL'', ''API'']
                    ''2025-01-01T00:00:03''
                    (RecruitmentAgent_init None ''gemini-2.0-flash''))))
   \<and> get_session_state
       (snd (full_workflow sample_candidate sample_job_description []
         \<lparr>t_screening = ''2025-01-02T00:00:01'', t_matching = ''2025-01-02T00:00:02'',
          t_interview = ''2025-01-02T00:00:03'', t_workflow = ''2025-01-02T00:00:04''\<rparr>
         (RecruitmentAgent_init None ''gemini-2.0-flash'')))
       ''interview_questions'' = None"
proof (intro conjI)
  let ?clk1 = "\<lparr>t_screening = ''2025-01-01T00:00:01'', t_matching = ''2025-01-01T00:00:02'',
                 t_interview = ''2025-01-01T00:00:03'', t_workflow = ''2025-01-01T00:00:04''\<rparr>"
  let ?clk2 = "\<lparr>t_screening = ''2025-01-02T00:00:01'', t_matching = ''2025-01-02T00:00:02'',
          t_interview = ''2025-01-02T00:00:03'', t_workflow = ''2025-01-02T00:00:04''\<rparr>"
  let ?agent = "RecruitmentAgent_init None ''gemini-2.0-flash''"
  let ?run1 = "full_workflow sample_candidate sample_job_description [hd sample_jobs]
                 ?clk1 ?agent"
  show "fst (full_workflow sample_candidate sample_job_description [] ?clk2 (snd ?run1)) =
     Inr (Completed
       \<lparr>wr_candidate_name = ''Alice Johnson'',
        wr_overall_status = ''COMPLETED'',
        wr_screening =
          \<lparr>sr_match_score = 100,
           sr_resume_skills =
             [''Python'', ''Machine Learning'', ''Cloud'', ''SQL'', ''API'', ''Docker''],
           sr_required_skills = [''Python'', ''Machine Learning'', ''Cloud'', ''SQL'', ''API''],
           sr_recommendation = PASS,
           sr_timestamp = ''2025-01-02T00:00:01''\<rparr>,
        wr_matching =
          \<lparr>mr_candidate_id = ''Alice Johnson'', mr_total_matches_found = 0,
           mr_top_matches = [], mr_timestamp = ''2025-01-02T00:00:02''\<rparr>,
        wr_interview = NO_MATCHES,
        wr_timestamp = ''2025-01-02T00:00:04''\<rparr>)"
    by (simp add: sample_empty_completed)
  have first: "session_state (snd ?run1) ''interview_questions'' =
     Some (InterviewValue
            (fst (generate_interview ''Senior ML Engineer''
                    [''Python'', ''Machine Learning'', ''Cloud'', ''Docker'', ''SQL'', ''API'']
                    ''2025-01-01T00:00:03'' ?agent)))"
    by (simp add: sample_memory sample_first_completed Let_def)
  show "get_session_state
       (snd (full_workflow sample_candidate sample_job_description [] ?clk2 (snd ?run1)))
       ''interview_questions'' =
     Some (InterviewValue
            (fst (generate_interview ''Senior ML Engineer''
                    [''Python'', ''Machine Learning'', ''Cloud'', ''Docker'', ''SQL'', ''API'']
                    ''2025-01-01T00:00:03'' ?agent)))"
    unfolding get_session_state_def
    by (simp add: sample_memory [of "[]"] sample_empty_completed Let_def first)
  show "get_session_state
       (snd (full_workflow sample_candidate sample_job_description [] ?clk2 ?agent))
       ''interview_questions'' = None"
    unfolding get_session_state_def
    by (simp add: sample_memory [of "[]"] sample_empty_completed Let_def
        RecruitmentAgent_init_def)
qed

end
